theory Spec2Isabelle
  imports Complex_Main "HOL-Library.Sublist"
begin

section \<open>Strings\<close>

text \<open>
  Python strings are modelled as \<open>string\<close> (lists of 8-bit characters), read as
  ASCII text. \<open>str.lower\<close> and \<open>str.title\<close> are modelled on the ASCII letters; every
  other character is left as it is. The test \<open>word in description\<close> of two strings is
  the contiguous-sublist relation \<open>sublist word description\<close>.
\<close>

definition ascii_uppercase :: string where
  "ascii_uppercase = ''ABCDEFGHIJKLMNOPQRSTUVWXYZ''"

definition ascii_lowercase :: string where
  "ascii_lowercase = ''abcdefghijklmnopqrstuvwxyz''"

definition lower_char :: "char \<Rightarrow> char" where
  "lower_char c =
     (case map_of (zip ascii_uppercase ascii_lowercase) c of Some l \<Rightarrow> l | None \<Rightarrow> c)"

definition upper_char :: "char \<Rightarrow> char" where
  "upper_char c =
     (case map_of (zip ascii_lowercase ascii_uppercase) c of Some u \<Rightarrow> u | None \<Rightarrow> c)"

definition lower :: "string \<Rightarrow> string" where
  "lower s = map lower_char s"

text \<open>
  \<open>str.title\<close>: a cased character that follows an uncased one (or starts the string)
  is upper-cased, a cased character that follows a cased one is lower-cased.
\<close>

fun title_from :: "bool \<Rightarrow> string \<Rightarrow> string" where
  "title_from previous_is_cased [] = []"
| "title_from previous_is_cased (c # cs) =
     (if c \<in> set ascii_lowercase
      then (if previous_is_cased then c else upper_char c) # title_from True cs
      else if c \<in> set ascii_uppercase
      then (if previous_is_cased then lower_char c else c) # title_from True cs
      else c # title_from False cs)"

definition title :: "string \<Rightarrow> string" where
  "title s = title_from False s"

section \<open>The input classifier (example\_usage.py, parse\_natural\_language)\<close>

text \<open>\<open>any(word in description for word in ws)\<close>.\<close>

definition any_word_in :: "string list \<Rightarrow> string \<Rightarrow> bool" where
  "any_word_in ws description = list_ex (\<lambda>word. sublist word description) ws"

record params =
  kitchen_size :: string
  scope :: string
  quality_tier :: string

definition parse_natural_language :: "string \<Rightarrow> params" where
  "parse_natural_language description0 =
    (let description = lower description0;
         kitchen_size =
           (if any_word_in [''small'', ''galley'', ''tiny''] description then ''small''
            else if any_word_in [''large'', ''big'', ''spacious''] description then ''large''
            else if any_word_in [''xl'', ''luxury'', ''massive''] description then ''xl''
            else ''medium'');
         scope =
           (if any_word_in [''cosmetic'', ''refresh'', ''update'', ''paint'', ''reface'']
                 description
            then ''cosmetic''
            else if any_word_in [''gut'', ''complete'', ''full'', ''tear down'', ''rebuild'']
                 description
            then ''gut_renovation''
            else ''standard'');
         quality =
           (if any_word_in [''budget'', ''cheap'', ''basic'', ''affordable''] description
            then ''budget''
            else if any_word_in [''luxury'', ''high-end'', ''premium'', ''custom''] description
            then ''luxury''
            else if any_word_in [''high'', ''nice'', ''good quality''] description
            then ''high_end''
            else ''mid_range'')
     in \<lparr>kitchen_size = kitchen_size, scope = scope, quality_tier = quality\<rparr>)"

text \<open>Every keyword the three rule chains of the classifier look for.\<close>

definition recognized_keywords :: "string list" where
  "recognized_keywords =
     [''small'', ''galley'', ''tiny'', ''large'', ''big'', ''spacious'', ''xl'', ''luxury'',
      ''massive'',
      ''cosmetic'', ''refresh'', ''update'', ''paint'', ''reface'',
      ''gut'', ''complete'', ''full'', ''tear down'', ''rebuild'',
      ''budget'', ''cheap'', ''basic'', ''affordable'',
      ''luxury'', ''high-end'', ''premium'', ''custom'', ''high'', ''nice'', ''good quality'']"

section \<open>Exceptions\<close>

text \<open>
  A Python exception is a value: a computation that may raise returns
  \<open>py_error + 'a\<close>, \<open>Inl\<close> the exception. \<open>and_then\<close> sequences two such
  computations, the first exception ending the run.
\<close>

datatype py_error = KeyError string | TypeError | AttributeError | ZeroDivisionError

definition and_then :: "py_error + 'a \<Rightarrow> ('a \<Rightarrow> py_error + 'b) \<Rightarrow> py_error + 'b" where
  "and_then m f = (case m of Inl e \<Rightarrow> Inl e | Inr x \<Rightarrow> f x)"

text \<open>
  A key of a dictionary is an optional field: \<open>None\<close> when the key is absent.
  \<open>subscript v k\<close> is \<open>d[k]\<close> and \<open>get_or v dflt\<close> is \<open>d.get(k, dflt)\<close>, for \<open>v\<close> the
  field of \<open>d\<close> that holds key \<open>k\<close>.
\<close>

definition subscript :: "'a option \<Rightarrow> string \<Rightarrow> py_error + 'a" where
  "subscript v k = (case v of None \<Rightarrow> Inl (KeyError k) | Some x \<Rightarrow> Inr x)"

definition get_or :: "'a option \<Rightarrow> 'a \<Rightarrow> 'a" where
  "get_or v dflt = (case v of None \<Rightarrow> dflt | Some x \<Rightarrow> x)"

text \<open>A loop that appends one computed element per input element.\<close>

fun for_each :: "('a \<Rightarrow> py_error + 'b) \<Rightarrow> 'a list \<Rightarrow> py_error + 'b list" where
  "for_each f [] = Inr []"
| "for_each f (x # xs) =
     and_then (f x) (\<lambda>y. and_then (for_each f xs) (\<lambda>ys. Inr (y # ys)))"

section \<open>The trade template\<close>

text \<open>
  The template is the JSON document of the trade library, read by \<open>json.load\<close>. The
  estimators are modelled on documents of the template's shape: every dictionary is a
  record whose fields are the keys the code reads, each optional (a key may be absent),
  and every value has the type of the data model (a number, a string, a list of
  dictionaries). A dictionary keyed by names chosen in the document (a kitchen size, a
  scope, a quality tier, a rate category) is a map. Numbers are rationals and the
  arithmetic is exact, as Python's is on integers; the rounding of binary floating point
  is not modelled.
\<close>

record task =
  task :: "string option"
  labor_hours :: "rat option"
  hourly_rate_category :: "string option"

record material =
  item :: "string option"
  quantity :: "rat option"
  unit :: "string option"
  unit_cost_base :: "rat option"
  waste_factor :: "rat option"

record phase =
  phase_id :: "string option"
  phase_name :: "string option"
  sequence :: "int option"
  tasks :: "task list option"
  materials :: "material list option"

record labor_rate =
  typical :: "rat option"

text \<open>
  The value of \<open>phases_included\<close>: the string \<open>"all"\<close>, or a list of phase
  identifiers.
\<close>

datatype phases_sel = All | Only "string list"

text \<open>
  An entry of \<open>sizing_factors.kitchen_size\<close> or of
  \<open>sizing_factors.renovation_scope\<close>. \<open>other_keys\<close> names the keys of the entry
  that the estimators do not read; they matter to the truth value of the dictionary
  only (an empty dictionary is false).
\<close>

record factor =
  complexity_multiplier :: "rat option"
  phases_included :: "phases_sel option"
  other_keys :: "string list"

definition empty_dict :: factor where
  "empty_dict = \<lparr>complexity_multiplier = None, phases_included = None, other_keys = []\<rparr>"

definition truthy :: "factor \<Rightarrow> bool" where
  "truthy d \<longleftrightarrow> d \<noteq> empty_dict"

record quality_factor =
  material_multiplier :: "rat option"

text \<open>
  The dictionary \<open>sizing_factors\<close>; its two keys are \<open>kitchen_size\<close> and
  \<open>renovation_scope\<close>.
\<close>

record sizing =
  by_kitchen_size :: "(string \<rightharpoonup> factor) option"
  by_renovation_scope :: "(string \<rightharpoonup> factor) option"

record template =
  phases :: "phase list option"
  labor_rates :: "(string \<rightharpoonup> labor_rate) option"
  sizing_factors :: "sizing option"
  quality_tiers :: "(string \<rightharpoonup> quality_factor) option"

section \<open>Included phases (lines 75--80 of both estimators)\<close>

text \<open>
  \<open>[p for p in template['phases'] if p['phase_id'] in phases_included]\<close> for a list
  of identifiers.
\<close>

fun select_phases :: "string list \<Rightarrow> phase list \<Rightarrow> py_error + phase list" where
  "select_phases ids [] = Inr []"
| "select_phases ids (p # ps) =
     and_then (subscript (phase_id p) ''phase_id'') (\<lambda>pid.
     and_then (select_phases ids ps) (\<lambda>rest.
     Inr (if pid \<in> set ids then p # rest else rest)))"

definition included_phases :: "template \<Rightarrow> factor \<Rightarrow> py_error + phase list" where
  "included_phases t scope_factor =
     (case get_or (phases_included scope_factor) All of
        All \<Rightarrow> subscript (phases t) ''phases''
      | Only ids \<Rightarrow> and_then (subscript (phases t) ''phases'') (select_phases ids))"

section \<open>The estimate generator (example\_usage.py)\<close>

datatype line_item =
  LaborItem string string rat rat rat
| MaterialItem string string rat string rat rat rat

text \<open>
  The keys of a line item: \<open>category\<close> is the constructor; a labor item holds
  \<open>phase\<close>, \<open>description\<close>, \<open>hours\<close>, \<open>rate\<close>, \<open>total_cost\<close>; a material item
  holds \<open>phase\<close>, \<open>description\<close>, \<open>quantity\<close>, \<open>unit\<close>, \<open>unit_cost\<close>,
  \<open>waste_factor\<close>, \<open>total_cost\<close>.
\<close>

definition labor_item :: "template \<Rightarrow> phase \<Rightarrow> task \<Rightarrow> py_error + line_item" where
  "labor_item t ph tk =
     and_then (subscript (phase_name ph) ''phase_name'') (\<lambda>pn.
     and_then (subscript (task tk) ''task'') (\<lambda>descr.
     let hrs = get_or (labor_hours tk) 0;
         cat = get_or (hourly_rate_category tk) ''skilled''
     in and_then (subscript (labor_rates t) ''labor_rates'') (\<lambda>rates.
        and_then (subscript (rates cat) cat) (\<lambda>r.
        and_then (subscript (typical r) ''typical'') (\<lambda>typ.
        Inr (LaborItem pn descr hrs typ (hrs * typ)))))))"

definition material_item :: "phase \<Rightarrow> material \<Rightarrow> py_error + line_item" where
  "material_item ph m =
     and_then (subscript (phase_name ph) ''phase_name'') (\<lambda>pn.
     and_then (subscript (item m) ''item'') (\<lambda>descr.
     let q = get_or (quantity m) 0;
         unit_cost = get_or (unit_cost_base m) 0;
         w = get_or (waste_factor m) 0
     in Inr (MaterialItem pn descr q (get_or (unit m) ''each'') unit_cost w
               (q * unit_cost * (1 + w)))))"

definition process_phase :: "template \<Rightarrow> phase \<Rightarrow> py_error + line_item list" where
  "process_phase t ph =
     and_then (for_each (labor_item t ph) (get_or (tasks ph) [])) (\<lambda>labor.
     and_then (for_each (material_item ph) (get_or (materials ph) [])) (\<lambda>mats.
     Inr (labor @ mats)))"

text \<open>
  The inner loop over the items of a phase: labor hours and material cost are
  accumulated apart.
\<close>

fun add_item :: "rat \<times> rat \<Rightarrow> line_item \<Rightarrow> rat \<times> rat" where
  "add_item (total_labor_hours, total_material_cost) (LaborItem pn d hrs r c) =
     (total_labor_hours + hrs, total_material_cost)"
| "add_item (total_labor_hours, total_material_cost) (MaterialItem pn d q u uc w c) =
     (total_labor_hours, total_material_cost + c)"

fun estimate_loop ::
  "template \<Rightarrow> phase list \<Rightarrow> line_item list \<times> rat \<times> rat
     \<Rightarrow> py_error + (line_item list \<times> rat \<times> rat)" where
  "estimate_loop t [] acc = Inr acc"
| "estimate_loop t (ph # rest) (line_items, running) =
     and_then (process_phase t ph) (\<lambda>phase_items.
     estimate_loop t rest (line_items @ phase_items, foldl add_item running phase_items))"

record totals =
  labor_hours :: rat
  labor_cost :: rat
  material_cost :: rat
  total_cost :: rat

record estimate =
  line_items :: "line_item list"
  totals :: totals

text \<open>
  The body of \<open>generate_estimate\<close> after the description is classified (lines
  70--127). The report it prints is not modelled, but for the one exception printing
  can raise: the summary divides the material cost by the quality multiplier.
\<close>

definition estimate_for :: "template \<Rightarrow> params \<Rightarrow> py_error + estimate" where
  "estimate_for t ps =
     and_then (subscript (sizing_factors t) ''sizing_factors'') (\<lambda>sz.
     and_then (subscript (by_kitchen_size sz) ''kitchen_size'') (\<lambda>sizes.
     and_then (subscript (sizes (kitchen_size ps)) (kitchen_size ps)) (\<lambda>size_factor.
     and_then (subscript (by_renovation_scope sz) ''renovation_scope'') (\<lambda>scopes.
     and_then (subscript (scopes (scope ps)) (scope ps)) (\<lambda>scope_factor.
     and_then (subscript (quality_tiers t) ''quality_tiers'') (\<lambda>tiers.
     and_then (subscript (tiers (quality_tier ps)) (quality_tier ps)) (\<lambda>quality_factor.
     and_then (included_phases t scope_factor) (\<lambda>included.
     and_then (estimate_loop t included ([], 0, 0))
       (\<lambda>(line_items, total_labor_hours, total_material_cost).
     and_then (subscript (complexity_multiplier size_factor) ''complexity_multiplier'') (\<lambda>c1.
     and_then (subscript (complexity_multiplier scope_factor) ''complexity_multiplier'') (\<lambda>c2.
     let complexity = c1 * c2;
         adjusted_hours = total_labor_hours * complexity
     in and_then (subscript (material_multiplier quality_factor) ''material_multiplier'') (\<lambda>mm.
     let adjusted_materials = total_material_cost * mm
     in and_then (subscript (labor_rates t) ''labor_rates'') (\<lambda>rates.
     and_then (subscript (rates ''skilled'') ''skilled'') (\<lambda>skilled.
     and_then (subscript (typical skilled) ''typical'') (\<lambda>labor_rate.
     let labor_cost = adjusted_hours * labor_rate;
         total_cost = labor_cost + adjusted_materials
     in if mm = 0 then Inl ZeroDivisionError
        else Inr \<lparr>line_items = line_items,
                  totals = \<lparr>labor_hours = adjusted_hours, labor_cost = labor_cost,
                             material_cost = adjusted_materials,
                             total_cost = total_cost\<rparr>\<rparr>)))))))))))))))"

definition generate_estimate :: "template \<Rightarrow> string \<Rightarrow> py_error + estimate" where
  "generate_estimate t natural_language_input =
     estimate_for t (parse_natural_language natural_language_input)"

section \<open>The sample estimate (validate\_template.py)\<close>

text \<open>
  One round of the loop over the included phases: the sums of the phase, the running
  totals, then the three lines printed for the phase, which read \<open>sequence\<close> and
  \<open>phase_name\<close>.
\<close>

definition phase_labor_hours :: "phase \<Rightarrow> rat" where
  "phase_labor_hours ph =
     foldl (\<lambda>acc tk. acc + get_or (task.labor_hours tk) 0) 0 (get_or (tasks ph) [])"

definition phase_material_cost :: "phase \<Rightarrow> rat" where
  "phase_material_cost ph =
     foldl (\<lambda>acc m. acc + get_or (quantity m) 0 * get_or (unit_cost_base m) 0
                            * (1 + get_or (waste_factor m) 0))
       0 (get_or (materials ph) [])"

fun sample_loop :: "phase list \<Rightarrow> rat \<times> rat \<Rightarrow> py_error + (rat \<times> rat)" where
  "sample_loop [] acc = Inr acc"
| "sample_loop (ph # rest) (total_labor_hours, total_material_cost) =
     (let running = (total_labor_hours + phase_labor_hours ph,
                  total_material_cost + phase_material_cost ph)
      in and_then (subscript (sequence ph) ''sequence'') (\<lambda>sq.
         and_then (subscript (phase_name ph) ''phase_name'') (\<lambda>pn.
         sample_loop rest running)))"

text \<open>
  \<open>calculate_sample_estimate\<close> returns \<open>None\<close> for an unknown size or scope, and
  the dictionary of totals otherwise. Its parameters \<open>kitchen_size\<close> and \<open>scope\<close>
  are \<open>size_arg\<close> and \<open>scope_arg\<close> here. What it prints is not modelled.
\<close>

definition calculate_sample_estimate ::
  "template \<Rightarrow> string \<Rightarrow> string \<Rightarrow> py_error + totals option" where
  "calculate_sample_estimate t size_arg scope_arg =
     and_then (subscript (sizing_factors t) ''sizing_factors'') (\<lambda>sz.
     and_then (subscript (by_kitchen_size sz) ''kitchen_size'') (\<lambda>sizes.
     let size_factor = get_or (sizes size_arg) empty_dict
     in and_then (subscript (by_renovation_scope sz) ''renovation_scope'') (\<lambda>scopes.
     let scope_factor = get_or (scopes scope_arg) empty_dict
     in if \<not> truthy size_factor \<or> \<not> truthy scope_factor then Inr None
        else
     and_then (included_phases t scope_factor) (\<lambda>included.
     and_then (subscript (labor_rates t) ''labor_rates'') (\<lambda>rates.
     and_then (sample_loop included (0, 0)) (\<lambda>(total_labor_hours, total_material_cost).
     let complexity_multiplier =
           get_or (complexity_multiplier size_factor) 1
             * get_or (complexity_multiplier scope_factor) 1;
         adjusted_labor_hours = total_labor_hours * complexity_multiplier;
         adjusted_material_cost = total_material_cost * complexity_multiplier
     in and_then (subscript (rates ''skilled'') ''skilled'') (\<lambda>skilled.
        and_then (subscript (typical skilled) ''typical'') (\<lambda>typical_rate.
        let total_labor_cost = adjusted_labor_hours * typical_rate
        in Inr (Some \<lparr>labor_hours = adjusted_labor_hours, labor_cost = total_labor_cost,
                      material_cost = adjusted_material_cost,
                      total_cost = total_labor_cost + adjusted_material_cost\<rparr>)))))))))"

section \<open>JSON values\<close>

text \<open>
  The validators and the HTTP handlers work on documents of which nothing is known:
  any JSON value, as \<open>json.load\<close> and \<open>request.json\<close> return it. An object is
  the association list of its keys; \<open>JInt\<close> is a Python \<open>int\<close>, \<open>JNum\<close> a number
  written with a fraction.
\<close>

datatype json =
  JNull
| JBool bool
| JInt int
| JNum rat
| JStr string
| JArr "json list"
| JObj "(string \<times> json) list"

text \<open>\<open>bool(v)\<close>, the truth value \<open>not v\<close> negates.\<close>

fun json_truthy :: "json \<Rightarrow> bool" where
  "json_truthy JNull = False"
| "json_truthy (JBool b) = b"
| "json_truthy (JInt i) = (i \<noteq> 0)"
| "json_truthy (JNum r) = (r \<noteq> 0)"
| "json_truthy (JStr s) = (s \<noteq> [])"
| "json_truthy (JArr xs) = (xs \<noteq> [])"
| "json_truthy (JObj kvs) = (kvs \<noteq> [])"

text \<open>
  \<open>field in v\<close> for a string \<open>field\<close>: a key of a dictionary, an element of a list, a
  substring of a string; \<open>TypeError\<close> on a value that is no container.
\<close>

fun py_in :: "string \<Rightarrow> json \<Rightarrow> py_error + bool" where
  "py_in field (JObj kvs) = Inr (field \<in> set (map fst kvs))"
| "py_in field (JArr xs) = Inr (JStr field \<in> set xs)"
| "py_in field (JStr s) = Inr (sublist field s)"
| "py_in field v = Inl TypeError"

text \<open>\<open>v.get(k, dflt)\<close>: only a dictionary has the method.\<close>

fun json_get :: "json \<Rightarrow> string \<Rightarrow> json \<Rightarrow> py_error + json" where
  "json_get (JObj kvs) k dflt = Inr (case map_of kvs k of Some v \<Rightarrow> v | None \<Rightarrow> dflt)"
| "json_get v k dflt = Inl AttributeError"

text \<open>\<open>v[k]\<close> for a string \<open>k\<close>.\<close>

fun json_subscript :: "json \<Rightarrow> string \<Rightarrow> py_error + json" where
  "json_subscript (JObj kvs) k =
     (case map_of kvs k of Some v \<Rightarrow> Inr v | None \<Rightarrow> Inl (KeyError k))"
| "json_subscript v k = Inl TypeError"

fun json_len :: "json \<Rightarrow> py_error + nat" where
  "json_len (JObj kvs) = Inr (length kvs)"
| "json_len (JArr xs) = Inr (length xs)"
| "json_len (JStr s) = Inr (length s)"
| "json_len v = Inl TypeError"

text \<open>\<open>v.lower()\<close>: only a string has the method.\<close>

fun json_lower :: "json \<Rightarrow> py_error + string" where
  "json_lower (JStr s) = Inr (lower s)"
| "json_lower v = Inl AttributeError"

text \<open>The value under a key of an object, to read a response.\<close>

fun json_field :: "json \<Rightarrow> string \<Rightarrow> json option" where
  "json_field (JObj kvs) k = map_of kvs k"
| "json_field v k = None"

section \<open>Template validation (validate\_template.py)\<close>

text \<open>
  Each validator prints one message and returns a truth value. The message is part of
  the result here.
\<close>

datatype message =
  MissingRequiredFields "string list"
| AllFieldsPresent
| PhasesNotList
| PhaseMissingFields nat "string list"
| PhasesValidated nat nat nat

text \<open>\<open>[field for field in required if field not in v]\<close>, and the loop that builds the same list.\<close>

fun missing_from :: "json \<Rightarrow> string list \<Rightarrow> py_error + string list" where
  "missing_from v [] = Inr []"
| "missing_from v (field # others) =
     and_then (py_in field v) (\<lambda>present.
     and_then (missing_from v others) (\<lambda>rest.
     Inr (if present then rest else field # rest)))"

definition required_fields :: "string list" where
  "required_fields =
     [''job_id'', ''trade_category'', ''job_name'', ''description'',
      ''phases'', ''labor_rates'', ''sizing_factors'']"

definition required_phase_fields :: "string list" where
  "required_phase_fields = [''phase_id'', ''phase_name'', ''sequence'', ''tasks'', ''materials'']"

definition validate_template_structure :: "json \<Rightarrow> py_error + (message \<times> bool)" where
  "validate_template_structure template =
     and_then (missing_from template required_fields) (\<lambda>missing_fields.
     if missing_fields \<noteq> [] then Inr (MissingRequiredFields missing_fields, False)
     else Inr (AllFieldsPresent, True))"

text \<open>
  The loop of \<open>validate_phases\<close> over the phases left, with the number \<open>i\<close> of the
  phase at hand and the two counters; \<open>n\<close> is \<open>len(phases)\<close>.
\<close>

fun phases_loop ::
  "nat \<Rightarrow> json list \<Rightarrow> nat \<Rightarrow> nat \<Rightarrow> nat \<Rightarrow> py_error + (message \<times> bool)" where
  "phases_loop n [] i total_tasks total_materials =
     Inr (PhasesValidated n total_tasks total_materials, True)"
| "phases_loop n (ph # rest) i total_tasks total_materials =
     and_then (missing_from ph required_phase_fields) (\<lambda>missing.
     if missing \<noteq> [] then Inr (PhaseMissingFields i missing, False)
     else
       and_then (and_then (json_get ph ''tasks'' (JArr [])) json_len) (\<lambda>n_tasks.
       and_then (and_then (json_get ph ''materials'' (JArr [])) json_len) (\<lambda>n_materials.
       phases_loop n rest (i + 1) (total_tasks + n_tasks) (total_materials + n_materials))))"

fun validate_phases :: "json \<Rightarrow> py_error + (message \<times> bool)" where
  "validate_phases (JArr ps) =
     (if ps = [] then Inr (PhasesNotList, False) else phases_loop (length ps) ps 1 0 0)"
| "validate_phases v = Inr (PhasesNotList, False)"

text \<open>
  The validation of \<open>main\<close> (lines 148--159), on the document \<open>load_template\<close>
  returned: the messages printed, and whether the run goes on to the estimates
  (\<open>False\<close>: \<open>sys.exit(1)\<close>).
\<close>

definition main_validation :: "json \<Rightarrow> py_error + (message list \<times> bool)" where
  "main_validation template =
     (if \<not> json_truthy template then Inr ([], False)
      else
        and_then (validate_template_structure template) (\<lambda>(m1, ok1).
        if \<not> ok1 then Inr ([m1], False)
        else
          and_then (json_subscript template ''phases'') (\<lambda>phases.
          and_then (validate_phases phases) (\<lambda>(m2, ok2).
          Inr ([m1, m2], ok2)))))"

section \<open>The HTTP facade (app.py)\<close>

text \<open>
  What the handlers read from their environment is a parameter: \<open>now\<close> is the value
  of \<open>datetime.datetime.now().isoformat()\<close> when the response is built, \<open>hash\<close> is
  Python's \<open>hash\<close> on strings (any function to the integers; Python seeds it anew in every
  process), and \<open>fmt\<close> renders a JSON value that is not a string inside an f-string.
  A handler returns the response body with its HTTP status; a dictionary returned alone
  has status 200. The log lines are not modelled: writing them raises nothing.
\<close>

record service =
  url :: string
  status :: string
  description :: string

definition SERVICES :: "(string \<times> service) list" where
  "SERVICES =
     [(''firebet'',
         \<lparr>url = ''https://firebet-production.railway.app'', status = ''planned'',
          description = ''Sports betting intelligence and predictions''\<rparr>),
      (''firecrypto'',
         \<lparr>url = ''https://firecrypto-production.railway.app'', status = ''planned'',
          description = ''Cryptocurrency market intelligence and predictions''\<rparr>),
      (''firecrm'',
         \<lparr>url = ''https://firecrm-production.railway.app'', status = ''planned'',
          description = ''Customer relationship management and lead intelligence''\<rparr>),
      (''firebranding'',
         \<lparr>url = ''https://firebranding-production.railway.app'', status = ''planned'',
          description = ''Digital presence analysis and branding intelligence''\<rparr>),
      (''firecontractor'',
         \<lparr>url = ''https://firecontractor-production.railway.app'', status = ''planned'',
          description = ''Construction project management and optimization''\<rparr>),
      (''firefleet'',
         \<lparr>url = ''https://firefleet-production.railway.app'', status = ''planned'',
          description = ''Fleet logistics and route optimization''\<rparr>),
      (''roomlens'',
         \<lparr>url = ''https://roomlens-production.railway.app'', status = ''planned'',
          description = ''Property analytics and real estate intelligence''\<rparr>)]"

definition service_json :: "service \<Rightarrow> json" where
  "service_json s =
     JObj [(''url'', JStr (url s)), (''status'', JStr (status s)),
           (''description'', JStr (description s))]"

definition count_status :: "string \<Rightarrow> int" where
  "count_status st = int (length (filter (\<lambda>s. status s = st) (map snd SERVICES)))"

text \<open>The fire emoji that opens the hub's name, as its four UTF-8 bytes.\<close>

definition fire_emoji :: string where
  "fire_emoji = [CHR 0xF0, CHR 0x9F, CHR 0x94, CHR 0xA5]"

definition home :: "string \<Rightarrow> json \<times> nat" where
  "home now =
     (JObj
       [(''name'', JStr (fire_emoji @ '' FireAPI - Central Intelligence Hub'')),
        (''version'', JStr ''2.0.0''),
        (''description'', JStr ''Central hub for Fire Ventures Enterprise ecosystem''),
        (''architecture'',
           JStr ''Hub and Spoke Model - All apps communicate through FireAPI''),
        (''ecosystem'',
           JObj [(''total_services'', JInt (int (length SERVICES))),
                 (''available_services'', JArr (map (JStr \<circ> fst) SERVICES)),
                 (''operational_services'', JInt (count_status ''live'')),
                 (''planned_services'', JInt (count_status ''planned''))]),
        (''endpoints'',
           JObj [(''sports_intelligence'', JStr ''/sports/predict (POST)''),
                 (''crypto_intelligence'', JStr ''/crypto/predict (POST)''),
                 (''crm_operations'', JStr ''/crm/analyze (POST)''),
                 (''branding_analysis'', JStr ''/branding/analyze (POST)''),
                 (''service_directory'', JStr ''/services (GET)''),
                 (''health_check'', JStr ''/health (GET)'')]),
        (''communication_flow'',
           JArr [JStr ''1. Apps make requests to FireAPI'',
                 JStr ''2. FireAPI processes with central intelligence'',
                 JStr ''3. FireAPI returns enriched data to apps'',
                 JStr ''4. Apps display results to users'']),
        (''documentation'', JStr ''https://tgwbkzua.gensparkspace.com/''),
        (''timestamp'', JStr now)],
      200)"

definition services :: "json \<times> nat" where
  "services =
     (JObj
       [(''fire_ecosystem'', JObj (map (\<lambda>(name, details). (name, service_json details)) SERVICES)),
        (''total_services'', JInt (int (length SERVICES))),
        (''central_hub'', JStr ''FireAPI coordinates all intelligence''),
        (''architecture'', JStr ''Microservices communicating through central hub''),
        (''service_status'',
           JObj (map (\<lambda>(name, details). (name, JStr (status details))) SERVICES))],
      200)"

definition health :: "string \<Rightarrow> json \<times> nat" where
  "health now =
     (JObj
       [(''fireapi_status'', JStr ''healthy''),
        (''timestamp'', JStr now),
        (''central_hub'', JStr ''operational''),
        (''version'', JStr ''2.0.0''),
        (''ecosystem'',
           JObj [(''total_services'', JInt (int (length SERVICES))),
                 (''live_services'', JInt (count_status ''live'')),
                 (''planned_services'', JInt (count_status ''planned''))]),
        (''intelligence_modules'',
           JArr [JStr ''sports_prediction'', JStr ''crypto_prediction'',
                 JStr ''crm_analysis'', JStr ''branding_analysis''])],
      200)"

definition process_sports_prediction ::
  "(string \<Rightarrow> int) \<Rightarrow> string \<Rightarrow> json \<Rightarrow> string \<Rightarrow> string \<Rightarrow> json" where
  "process_sports_prediction hash now sport team1 team2 =
     (let confidence = 75 + hash (team1 @ team2) mod 20
      in JObj
        [(''prediction'', JStr (title team1 @ '' wins by 3-7 points'')),
         (''confidence'', JInt confidence),
         (''sport'', sport),
         (''matchup'', JStr (title team1 @ '' vs '' @ title team2)),
         (''factors'',
            JArr [JStr ''Home field advantage analysis'',
                  JStr ''Recent performance trends'',
                  JStr ''Injury report impact assessment'',
                  JStr ''Historical head-to-head data'']),
         (''betting_recommendations'',
            JArr [JStr (''Take '' @ title team1 @ '' -3 to -7''),
                  JStr ''Consider Over on total points'']),
         (''timestamp'', JStr now),
         (''service'', JStr ''FireAPI Sports Intelligence v2.0'')])"

text \<open>\<open>f"{v}"\<close>: a string is itself, any other value is rendered by \<open>fmt\<close>.\<close>

fun format_value :: "(json \<Rightarrow> string) \<Rightarrow> json \<Rightarrow> string" where
  "format_value fmt (JStr s) = s"
| "format_value fmt v = fmt v"

definition price_targets :: "(string \<times> (string \<times> string) list) list" where
  "price_targets =
     [(''bitcoin'',
         [(''1h'', ''$43,200''), (''6h'', ''$44,500''), (''24h'', ''$45,000''),
          (''48h'', ''$46,800'')]),
      (''ethereum'',
         [(''1h'', ''$2,650''), (''6h'', ''$2,720''), (''24h'', ''$2,800''),
          (''48h'', ''$2,900'')])]"

text \<open>
  \<open>price_targets.get(coin, {}).get(timeframe, "TBD")\<close>: a list or a dictionary is
  not hashable and cannot be looked up; a key that is not a string is in no table.
\<close>

fun price_target :: "string \<Rightarrow> json \<Rightarrow> py_error + string" where
  "price_target coin (JStr timeframe) =
     Inr (case map_of (case map_of price_targets coin of Some tbl \<Rightarrow> tbl | None \<Rightarrow> [])
               timeframe of
            Some target \<Rightarrow> target
          | None \<Rightarrow> ''TBD'')"
| "price_target coin (JArr xs) = Inl TypeError"
| "price_target coin (JObj kvs) = Inl TypeError"
| "price_target coin v = Inr ''TBD''"

definition process_crypto_prediction ::
  "(string \<Rightarrow> int) \<Rightarrow> (json \<Rightarrow> string) \<Rightarrow> string \<Rightarrow> string \<Rightarrow> json \<Rightarrow> py_error + json" where
  "process_crypto_prediction hash fmt now coin timeframe =
     (let confidence = 70 + hash (coin @ format_value fmt timeframe) mod 25
      in and_then (price_target coin timeframe) (\<lambda>target.
         Inr (JObj
           [(''coin'', JStr coin),
            (''timeframe'', timeframe),
            (''prediction'', JStr (if confidence > 75 then ''bullish'' else ''neutral'')),
            (''price_target'', JStr target),
            (''confidence'', JInt confidence),
            (''factors'',
               JArr [JStr ''Technical indicator analysis'',
                     JStr ''Market sentiment evaluation'',
                     JStr ''Volume and liquidity assessment'']),
            (''timestamp'', JStr now),
            (''service'', JStr ''FireAPI Crypto Intelligence v2.0'')])))"

text \<open>
  The two POST handlers: the \<open>try\<close> block, then the \<open>except Exception\<close> that turns
  every exception into the 500 response. \<open>data\<close> is \<open>request.json\<close>.
\<close>

definition sports_predict_try ::
  "(string \<Rightarrow> int) \<Rightarrow> string \<Rightarrow> json \<Rightarrow> py_error + (json \<times> nat)" where
  "sports_predict_try hash now data =
     and_then (json_get data ''sport'' (JStr ''nfl'')) (\<lambda>sport.
     and_then (and_then (json_get data ''team1'' (JStr [])) json_lower) (\<lambda>team1.
     and_then (and_then (json_get data ''team2'' (JStr [])) json_lower) (\<lambda>team2.
     and_then (json_get data ''app_id'' (JStr ''unknown'')) (\<lambda>app_id.
     and_then (json_get data ''user_id'' (JStr ''anonymous'')) (\<lambda>user_id.
     if team1 = [] \<or> team2 = []
     then Inr (JObj [(''error'', JStr ''Both team1 and team2 are required'')], 400)
     else Inr (process_sports_prediction hash now sport team1 team2, 200))))))"

definition sports_predict :: "(string \<Rightarrow> int) \<Rightarrow> string \<Rightarrow> json \<Rightarrow> json \<times> nat" where
  "sports_predict hash now data =
     (case sports_predict_try hash now data of
        Inr response \<Rightarrow> response
      | Inl e \<Rightarrow> (JObj [(''error'', JStr ''Sports intelligence temporarily unavailable'')], 500))"

definition crypto_predict_try ::
  "(string \<Rightarrow> int) \<Rightarrow> (json \<Rightarrow> string) \<Rightarrow> string \<Rightarrow> json \<Rightarrow> py_error + (json \<times> nat)" where
  "crypto_predict_try hash fmt now data =
     and_then (and_then (json_get data ''coin'' (JStr ''bitcoin'')) json_lower) (\<lambda>coin.
     and_then (json_get data ''timeframe'' (JStr ''24h'')) (\<lambda>timeframe.
     and_then (json_get data ''app_id'' (JStr ''unknown'')) (\<lambda>app_id.
     and_then (json_get data ''user_id'' (JStr ''anonymous'')) (\<lambda>user_id.
     and_then (process_crypto_prediction hash fmt now coin timeframe) (\<lambda>prediction.
     Inr (prediction, 200))))))"

definition crypto_predict ::
  "(string \<Rightarrow> int) \<Rightarrow> (json \<Rightarrow> string) \<Rightarrow> string \<Rightarrow> json \<Rightarrow> json \<times> nat" where
  "crypto_predict hash fmt now data =
     (case crypto_predict_try hash fmt now data of
        Inr response \<Rightarrow> response
      | Inl e \<Rightarrow> (JObj [(''error'', JStr ''Crypto intelligence temporarily unavailable'')], 500))"

section \<open>The quantities the estimates are stated in\<close>

text \<open>
  The factors a (size, scope, quality) triple resolves to in a template, the phases a
  scope includes, and the two raw sums: the labor hours of the tasks and the cost of the
  materials, \<open>quantity * unit_cost_base * (1 + waste_factor)\<close> each, of a list of
  phases. An absent number counts as 0, as \<open>.get(key, 0)\<close> reads it.
\<close>

definition size_factor_of :: "template \<Rightarrow> string \<Rightarrow> factor option" where
  "size_factor_of t k =
     Option.bind (sizing_factors t) (\<lambda>sz. Option.bind (by_kitchen_size sz) (\<lambda>tbl. tbl k))"

definition scope_factor_of :: "template \<Rightarrow> string \<Rightarrow> factor option" where
  "scope_factor_of t k =
     Option.bind (sizing_factors t) (\<lambda>sz. Option.bind (by_renovation_scope sz) (\<lambda>tbl. tbl k))"

definition size_complexity :: "template \<Rightarrow> string \<Rightarrow> rat option" where
  "size_complexity t k = Option.bind (size_factor_of t k) complexity_multiplier"

definition scope_complexity :: "template \<Rightarrow> string \<Rightarrow> rat option" where
  "scope_complexity t k = Option.bind (scope_factor_of t k) complexity_multiplier"

definition quality_multiplier :: "template \<Rightarrow> string \<Rightarrow> rat option" where
  "quality_multiplier t k =
     Option.bind (quality_tiers t) (\<lambda>tbl. Option.bind (tbl k) material_multiplier)"

definition skilled_typical_rate :: "template \<Rightarrow> rat option" where
  "skilled_typical_rate t =
     Option.bind (labor_rates t) (\<lambda>tbl. Option.bind (tbl ''skilled'') typical)"

definition task_hours :: "task \<Rightarrow> rat" where
  "task_hours tk = get_or (task.labor_hours tk) 0"

definition material_line_cost :: "material \<Rightarrow> rat" where
  "material_line_cost m =
     get_or (quantity m) 0 * get_or (unit_cost_base m) 0 * (1 + get_or (waste_factor m) 0)"

definition raw_labor_hours :: "phase list \<Rightarrow> rat" where
  "raw_labor_hours ps =
     sum_list (map (\<lambda>ph. sum_list (map task_hours (get_or (tasks ph) []))) ps)"

definition raw_material_cost :: "phase list \<Rightarrow> rat" where
  "raw_material_cost ps =
     sum_list (map (\<lambda>ph. sum_list (map material_line_cost (get_or (materials ph) []))) ps)"

text \<open>
  The costs as the specification words them. The phases a scope includes; the adjusted
  labor cost, the raw labor hours times the size multiplier, the scope multiplier and the
  typical rate of skilled labor; the adjusted material cost, the raw material cost times
  the material multiplier of the quality tier; their sum. Each is \<open>None\<close> when
  a factor it names is not in the template.
\<close>

definition included_for :: "template \<Rightarrow> string \<Rightarrow> phase list option" where
  "included_for t sc =
     Option.bind (scope_factor_of t sc)
       (\<lambda>scf. case included_phases t scf of Inr ps \<Rightarrow> Some ps | Inl e \<Rightarrow> None)"

definition adjusted_labor_cost :: "template \<Rightarrow> string \<Rightarrow> string \<Rightarrow> rat option" where
  "adjusted_labor_cost t sz sc =
     Option.bind (included_for t sc) (\<lambda>incl.
     Option.bind (size_complexity t sz) (\<lambda>c1.
     Option.bind (scope_complexity t sc) (\<lambda>c2.
     Option.bind (skilled_typical_rate t) (\<lambda>rate.
     Some (raw_labor_hours incl * c1 * c2 * rate)))))"

definition quality_adjusted_material_cost :: "template \<Rightarrow> string \<Rightarrow> string \<Rightarrow> rat option" where
  "quality_adjusted_material_cost t sc q =
     Option.bind (included_for t sc) (\<lambda>incl.
     Option.bind (quality_multiplier t q) (\<lambda>mm.
     Some (raw_material_cost incl * mm)))"

definition specified_total_cost :: "template \<Rightarrow> string \<Rightarrow> string \<Rightarrow> string \<Rightarrow> rat option" where
  "specified_total_cost t sz sc q =
     Option.bind (adjusted_labor_cost t sz sc) (\<lambda>labor.
     Option.bind (quality_adjusted_material_cost t sc q) (\<lambda>mats.
     Some (labor + mats)))"

text \<open>
  The complexity multiplier of the sample estimate, the product of the size and the
  scope multipliers, an absent one counting as 1; the material cost and the total cost
  with that multiplier on the materials.
\<close>

definition sample_complexity :: "template \<Rightarrow> string \<Rightarrow> string \<Rightarrow> rat" where
  "sample_complexity t sz sc = get_or (size_complexity t sz) 1 * get_or (scope_complexity t sc) 1"

definition complexity_adjusted_material_cost ::
  "template \<Rightarrow> string \<Rightarrow> string \<Rightarrow> rat option" where
  "complexity_adjusted_material_cost t sz sc =
     Option.bind (included_for t sc) (\<lambda>incl.
     Some (raw_material_cost incl * sample_complexity t sz sc))"

definition sample_total_cost :: "template \<Rightarrow> string \<Rightarrow> string \<Rightarrow> rat option" where
  "sample_total_cost t sz sc =
     Option.bind (included_for t sc) (\<lambda>incl.
     Option.bind (skilled_typical_rate t) (\<lambda>rate.
     Some (raw_labor_hours incl * sample_complexity t sz sc * rate
           + raw_material_cost incl * sample_complexity t sz sc)))"

text \<open>A phase carries one of the identifiers of a list.\<close>

definition id_among :: "string list \<Rightarrow> phase \<Rightarrow> bool" where
  "id_among ids ph = (case phase_id ph of None \<Rightarrow> False | Some i \<Rightarrow> i \<in> set ids)"

definition has_phase_id :: "phase \<Rightarrow> bool" where
  "has_phase_id ph = (phase_id ph \<noteq> None)"

text \<open>A JSON phase that passes one round of the loop of \<open>validate_phases\<close>.\<close>

definition passes_phase_check :: "json \<Rightarrow> bool" where
  "passes_phase_check ph \<longleftrightarrow>
     missing_from ph required_phase_fields = Inr []
     \<and> \<not> isl (and_then (json_get ph ''tasks'' (JArr [])) json_len)
     \<and> \<not> isl (and_then (json_get ph ''materials'' (JArr [])) json_len)"

text \<open>
  The names of a list that are no key of an object, in the order of the list: the
  complete list of its missing fields.
\<close>

definition absent_keys :: "(string \<times> json) list \<Rightarrow> string list \<Rightarrow> string list" where
  "absent_keys kvs names = filter (\<lambda>name. name \<notin> set (map fst kvs)) names"

text \<open>The keys of an object; no keys for any other value.\<close>

fun keys_of :: "json \<Rightarrow> string list" where
  "keys_of (JObj kvs) = map fst kvs"
| "keys_of v = []"

text \<open>
  The text of a team field of a request: the empty string when the key is absent (the
  default of \<open>data.get\<close>), and \<open>None\<close> when the request is no object or the value
  under the key is no string.
\<close>

definition team_field :: "json \<Rightarrow> string \<Rightarrow> string option" where
  "team_field data k =
     (case data of
        JObj kvs \<Rightarrow>
          (case map_of kvs k of None \<Rightarrow> Some [] | Some (JStr s) \<Rightarrow> Some s | Some v \<Rightarrow> None)
      | v \<Rightarrow> None)"

section \<open>Sample data\<close>

text \<open>
  A small template, two phases, with numbers that binary floating point holds exactly,
  so that Python computes the very values below.
\<close>

definition demo_demolition :: phase where
  "demo_demolition =
     \<lparr>phase_id = Some ''demolition'', phase_name = Some ''Demolition'', sequence = Some 1,
      tasks = Some [\<lparr>task = Some ''Remove old cabinets'', task.labor_hours = Some 8,
                     hourly_rate_category = Some ''skilled''\<rparr>],
      materials = Some [\<lparr>item = Some ''Dumpster rental'', quantity = Some 1,
                         unit = Some ''each'', unit_cost_base = Some 400,
                         waste_factor = Some 0\<rparr>]\<rparr>"

definition demo_cabinets :: phase where
  "demo_cabinets =
     \<lparr>phase_id = Some ''cabinets'', phase_name = Some ''Cabinet Installation'',
      sequence = Some 2,
      tasks = Some [\<lparr>task = Some ''Install cabinets'', task.labor_hours = Some 16,
                     hourly_rate_category = None\<rparr>],
      materials = Some [\<lparr>item = Some ''Base cabinets'', quantity = Some 10,
                         unit = Some ''linear_ft'', unit_cost_base = Some 300,
                         waste_factor = Some (1 / 4)\<rparr>]\<rparr>"

definition demo_phases :: "phase list" where
  "demo_phases = [demo_demolition, demo_cabinets]"

definition demo_sizes :: "string \<rightharpoonup> factor" where
  "demo_sizes =
     [''small'' \<mapsto> \<lparr>complexity_multiplier = Some (1 / 2), phases_included = None,
                     other_keys = []\<rparr>,
      ''medium'' \<mapsto> \<lparr>complexity_multiplier = Some 1, phases_included = None,
                      other_keys = []\<rparr>,
      ''large'' \<mapsto> \<lparr>complexity_multiplier = Some (3 / 2), phases_included = None,
                     other_keys = []\<rparr>,
      ''xl'' \<mapsto> \<lparr>complexity_multiplier = Some 2, phases_included = None,
                  other_keys = []\<rparr>]"

definition demo_scopes :: "string \<rightharpoonup> factor" where
  "demo_scopes =
     [''cosmetic'' \<mapsto> \<lparr>complexity_multiplier = Some (1 / 2),
                        phases_included = Some (Only [''cabinets'']), other_keys = []\<rparr>,
      ''standard'' \<mapsto> \<lparr>complexity_multiplier = Some 1, phases_included = Some All,
                        other_keys = []\<rparr>,
      ''gut_renovation'' \<mapsto> \<lparr>complexity_multiplier = Some 2, phases_included = None,
                              other_keys = []\<rparr>]"

definition demo_tiers :: "string \<rightharpoonup> quality_factor" where
  "demo_tiers =
     [''budget'' \<mapsto> \<lparr>material_multiplier = Some (3 / 4)\<rparr>,
      ''mid_range'' \<mapsto> \<lparr>material_multiplier = Some 1\<rparr>,
      ''high_end'' \<mapsto> \<lparr>material_multiplier = Some (3 / 2)\<rparr>,
      ''luxury'' \<mapsto> \<lparr>material_multiplier = Some 2\<rparr>]"

definition demo_template :: template where
  "demo_template =
     \<lparr>phases = Some demo_phases,
      labor_rates = Some [''skilled'' \<mapsto> \<lparr>typical = Some 50\<rparr>],
      sizing_factors = Some \<lparr>by_kitchen_size = Some demo_sizes,
                             by_renovation_scope = Some demo_scopes\<rparr>,
      quality_tiers = Some demo_tiers\<rparr>"

definition scenario_2 :: string where
  "scenario_2 = ''Complete gut renovation of large luxury kitchen with custom everything''"

text \<open>JSON documents for the validators.\<close>

definition good_phase :: json where
  "good_phase =
     JObj [(''phase_id'', JStr ''demolition''), (''phase_name'', JStr ''Demolition''),
           (''sequence'', JInt 1), (''tasks'', JArr []), (''materials'', JArr [])]"

definition fields_without_id :: "(string \<times> json) list" where
  "fields_without_id =
     [(''phase_name'', JStr ''Cabinet Installation''), (''sequence'', JInt 2),
      (''tasks'', JArr []), (''materials'', JArr [])]"

definition phase_without_id :: json where
  "phase_without_id = JObj fields_without_id"

definition phase_without_tasks :: json where
  "phase_without_tasks =
     JObj [(''phase_id'', JStr ''countertops''), (''phase_name'', JStr ''Countertops''),
           (''sequence'', JInt 3), (''materials'', JArr [])]"

definition doc_with_phases :: "json \<Rightarrow> json" where
  "doc_with_phases ps =
     JObj [(''job_id'', JStr ''kitchen_renovation''), (''trade_category'', JStr ''multi_trade''),
           (''job_name'', JStr ''Kitchen Renovation''), (''description'', JStr ''Sample''),
           (''phases'', ps), (''labor_rates'', JObj []), (''sizing_factors'', JObj [])]"

definition fields_without_labor_rates :: "(string \<times> json) list" where
  "fields_without_labor_rates =
     [(''job_id'', JStr ''kitchen_renovation''), (''trade_category'', JStr ''multi_trade''),
      (''job_name'', JStr ''Kitchen Renovation''), (''description'', JStr ''Sample''),
      (''phases'', JArr [good_phase]), (''sizing_factors'', JObj []),
      (''quality_tiers'', JObj [])]"

definition doc_without_labor_rates :: json where
  "doc_without_labor_rates = JObj fields_without_labor_rates"

definition doc_without_job_id :: json where
  "doc_without_job_id =
     JObj [(''trade_category'', JStr ''multi_trade''),
           (''job_name'', JStr ''Kitchen Renovation''), (''description'', JStr ''Sample''),
           (''phases'', JArr [phase_without_id]), (''labor_rates'', JObj []),
           (''sizing_factors'', JObj [])]"

text \<open>An environment and requests for the HTTP handlers.\<close>

definition demo_hash :: "string \<Rightarrow> int" where
  "demo_hash s = int (length s) - 40"

definition demo_fmt :: "json \<Rightarrow> string" where
  "demo_fmt v = ''?''"

definition demo_now :: string where
  "demo_now = ''2024-05-01T12:00:00.000000''"

definition request_empty_team1 :: json where
  "request_empty_team1 = JObj [(''team1'', JStr []), (''team2'', JStr ''Lakers'')]"

definition request_two_teams :: json where
  "request_two_teams =
     JObj [(''sport'', JStr ''nba''), (''team1'', JStr ''Celtics''), (''team2'', JStr ''Lakers'')]"

definition request_numeric_team2 :: json where
  "request_numeric_team2 = JObj [(''team1'', JStr []), (''team2'', JInt 5)]"

definition request_bitcoin :: json where
  "request_bitcoin = JObj [(''coin'', JStr ''Bitcoin''), (''timeframe'', JStr ''24h'')]"

section \<open>The classifier\<close>

lemma lower_scenario_2:
  "lower scenario_2 = ''complete gut renovation of large luxury kitchen with custom everything''"
  by (simp add: scenario_2_def lower_def lower_char_def ascii_uppercase_def ascii_lowercase_def)

text \<open>
  Claim C3, as amended. The description of scenario 2 is classified as size
  \<open>large\<close>, scope \<open>gut_renovation\<close> and quality \<open>luxury\<close>: the size rule for
  \<open>large\<close>, \<open>big\<close>, \<open>spacious\<close> is tried before the rule for \<open>xl\<close>, \<open>luxury\<close>,
  \<open>massive\<close>, and the description contains \<open>large\<close>.
\<close>

theorem scenario_2_classified:
  "parse_natural_language scenario_2 =
     \<lparr>kitchen_size = ''large'', scope = ''gut_renovation'', quality_tier = ''luxury''\<rparr>"
  unfolding parse_natural_language_def lower_scenario_2 Let_def any_word_in_def
  by (simp add: sublist_Cons_right)

text \<open>
  Claim C3 as stated fails: the description contains both \<open>luxury\<close> and \<open>large\<close>,
  and its size is not \<open>xl\<close>.
\<close>

theorem scenario_2_size_not_xl:
  "sublist ''luxury'' (lower scenario_2) \<and> sublist ''large'' (lower scenario_2)
   \<and> kitchen_size (parse_natural_language scenario_2) \<noteq> ''xl''"
  unfolding parse_natural_language_def lower_scenario_2 Let_def any_word_in_def
  by (simp add: sublist_Cons_right)

lemma no_keyword_default:
  assumes "\<not> any_word_in recognized_keywords (lower d)"
  shows "parse_natural_language d =
        \<lparr>kitchen_size = ''medium'', scope = ''standard'', quality_tier = ''mid_range''\<rparr>"
proof -
  from assms have n: "\<not> sublist w (lower d)" if "w \<in> set recognized_keywords" for w
    using that by (auto simp: any_word_in_def list_ex_iff)
  have k: "\<not> any_word_in ws (lower d)" if "set ws \<subseteq> set recognized_keywords" for ws
    using that n by (auto simp: any_word_in_def list_ex_iff)
  have "\<not> any_word_in [''small'', ''galley'', ''tiny''] (lower d)"
       "\<not> any_word_in [''large'', ''big'', ''spacious''] (lower d)"
       "\<not> any_word_in [''xl'', ''luxury'', ''massive''] (lower d)"
       "\<not> any_word_in [''cosmetic'', ''refresh'', ''update'', ''paint'', ''reface''] (lower d)"
       "\<not> any_word_in [''gut'', ''complete'', ''full'', ''tear down'', ''rebuild''] (lower d)"
       "\<not> any_word_in [''budget'', ''cheap'', ''basic'', ''affordable''] (lower d)"
       "\<not> any_word_in [''luxury'', ''high-end'', ''premium'', ''custom''] (lower d)"
       "\<not> any_word_in [''high'', ''nice'', ''good quality''] (lower d)"
    by (rule k, simp add: recognized_keywords_def)+
  then show ?thesis
    unfolding parse_natural_language_def Let_def by (simp only: if_False)
qed

lemma size_range:
  "kitchen_size (parse_natural_language d) \<in> set [''small'', ''medium'', ''large'', ''xl'']"
  by (simp add: parse_natural_language_def Let_def)

lemma scope_range:
  "scope (parse_natural_language d) \<in> set [''cosmetic'', ''standard'', ''gut_renovation'']"
  by (simp add: parse_natural_language_def Let_def)

lemma quality_range:
  "quality_tier (parse_natural_language d)
        \<in> set [''budget'', ''mid_range'', ''high_end'', ''luxury'']"
  by (simp add: parse_natural_language_def Let_def)

text \<open>
  Claim C7. A description whose lower-cased text contains none of the recognized
  keywords is classified as the default triple (\<open>medium\<close>, \<open>standard\<close>,
  \<open>mid_range\<close>); and the classifier, a total function, returns for every description
  one of the four sizes, one of the three scopes and one of the four quality tiers.
\<close>

theorem classifier_default:
  "(\<not> any_word_in recognized_keywords (lower d) \<longrightarrow>
      parse_natural_language d =
        \<lparr>kitchen_size = ''medium'', scope = ''standard'', quality_tier = ''mid_range''\<rparr>)
   \<and> kitchen_size (parse_natural_language d) \<in> set [''small'', ''medium'', ''large'', ''xl'']
   \<and> scope (parse_natural_language d) \<in> set [''cosmetic'', ''standard'', ''gut_renovation'']
   \<and> quality_tier (parse_natural_language d)
        \<in> set [''budget'', ''mid_range'', ''high_end'', ''luxury'']"
  using no_keyword_default [of d] size_range [of d] scope_range [of d] quality_range [of d]
  by blast

lemma lower_plain: "lower ''I want a new kitchen'' = ''i want a new kitchen''"
  by (simp add: lower_def lower_char_def ascii_uppercase_def ascii_lowercase_def)

theorem classifier_default_witness:
  "\<not> any_word_in recognized_keywords (lower ''I want a new kitchen'')
   \<and> parse_natural_language ''I want a new kitchen'' =
        \<lparr>kitchen_size = ''medium'', scope = ''standard'', quality_tier = ''mid_range''\<rparr>"
proof -
  have h: "\<not> any_word_in recognized_keywords (lower ''I want a new kitchen'')"
    unfolding lower_plain any_word_in_def recognized_keywords_def
    by (simp add: sublist_Cons_right)
  with classifier_default [of "''I want a new kitchen''"] show ?thesis by blast
qed

section \<open>The fabricated predictions\<close>

text \<open>
  Claim C9. Whatever the hash function is, the confidence of
  \<open>process_sports_prediction\<close> is an integer from 75 to 94, and the confidence of
  every prediction \<open>process_crypto_prediction\<close> returns is an integer from 70 to 94.
\<close>

theorem confidence_bounds:
  "(\<exists>c. json_field (process_sports_prediction hash now sport team1 team2) ''confidence''
          = Some (JInt c) \<and> 75 \<le> c \<and> c \<le> 94)
   \<and> (process_crypto_prediction hash fmt now coin timeframe = Inr r \<longrightarrow>
        (\<exists>c. json_field r ''confidence'' = Some (JInt c) \<and> 70 \<le> c \<and> c \<le> 94))"
proof
  have "0 \<le> hash (team1 @ team2) mod 20" "hash (team1 @ team2) mod 20 < 20" by simp_all
  then show "\<exists>c. json_field (process_sports_prediction hash now sport team1 team2) ''confidence''
          = Some (JInt c) \<and> 75 \<le> c \<and> c \<le> 94"
    by (simp add: process_sports_prediction_def Let_def)
next
  have b: "0 \<le> hash (coin @ format_value fmt timeframe) mod 25"
    "hash (coin @ format_value fmt timeframe) mod 25 < 25" by simp_all
  show "process_crypto_prediction hash fmt now coin timeframe = Inr r \<longrightarrow>
        (\<exists>c. json_field r ''confidence'' = Some (JInt c) \<and> 70 \<le> c \<and> c \<le> 94)"
  proof
    assume "process_crypto_prediction hash fmt now coin timeframe = Inr r"
    then obtain target where "r = JObj
           [(''coin'', JStr coin),
            (''timeframe'', timeframe),
            (''prediction'', JStr (if 70 + hash (coin @ format_value fmt timeframe) mod 25 > 75 then ''bullish'' else ''neutral'')),
            (''price_target'', JStr target),
            (''confidence'', JInt (70 + hash (coin @ format_value fmt timeframe) mod 25)),
            (''factors'',
               JArr [JStr ''Technical indicator analysis'',
                     JStr ''Market sentiment evaluation'',
                     JStr ''Volume and liquidity assessment'']),
            (''timestamp'', JStr now),
            (''service'', JStr ''FireAPI Crypto Intelligence v2.0'')]"
      by (auto simp: process_crypto_prediction_def Let_def and_then_def split: sum.splits)
    then show "\<exists>c. json_field r ''confidence'' = Some (JInt c) \<and> 70 \<le> c \<and> c \<le> 94"
      using b by simp
  qed
qed

theorem confidence_bounds_witness:
  "\<exists>r. process_crypto_prediction demo_hash demo_fmt demo_now ''bitcoin'' (JStr ''24h'') = Inr r
        \<and> (\<exists>c. json_field r ''confidence'' = Some (JInt c) \<and> 70 \<le> c \<and> c \<le> 94)"
proof -
  obtain r where
    h: "process_crypto_prediction demo_hash demo_fmt demo_now ''bitcoin'' (JStr ''24h'') = Inr r"
    by (simp add: process_crypto_prediction_def Let_def and_then_def price_targets_def)
  from h confidence_bounds
    [where hash = demo_hash and fmt = demo_fmt and now = demo_now and coin = "''bitcoin''"
       and timeframe = "JStr ''24h''" and r = r]
  show ?thesis by blast
qed

text \<open>
  Claim C10. For every sport, \<open>team1\<close> and \<open>team2\<close> the prediction text is
  the title-cased \<open>team1\<close> followed by \<open>wins by 3-7 points\<close>, and the betting
  recommendations take \<open>team1\<close>; neither depends on \<open>team2\<close>.
\<close>

theorem team1_always_wins:
  "json_field (process_sports_prediction hash now sport team1 team2) ''prediction''
     = Some (JStr (title team1 @ '' wins by 3-7 points''))
   \<and> json_field (process_sports_prediction hash now sport team1 team2) ''betting_recommendations''
     = Some (JArr [JStr (''Take '' @ title team1 @ '' -3 to -7''),
                   JStr ''Consider Over on total points''])
   \<and> json_field (process_sports_prediction hash now sport team1 other) ''prediction''
     = json_field (process_sports_prediction hash now sport team1 team2) ''prediction''
   \<and> json_field (process_sports_prediction hash now sport team1 other) ''betting_recommendations''
     = json_field (process_sports_prediction hash now sport team1 team2)
         ''betting_recommendations''"
  by (simp add: process_sports_prediction_def Let_def)

section \<open>The responses of the HTTP facade\<close>

text \<open>
  Claim C5 as stated fails: the response of \<open>GET /services\<close> has status 200 and
  no \<open>timestamp\<close> key.
\<close>

theorem services_has_no_timestamp:
  "snd services = 200 \<and> ''timestamp'' \<notin> set (keys_of (fst services))"
  by (simp add: services_def)

lemma sports_predict_200:
  assumes "snd (sports_predict hash now data) = 200"
  shows "\<exists>sport team1 team2.
           fst (sports_predict hash now data) = process_sports_prediction hash now sport team1 team2"
  using assms
  by (auto simp: sports_predict_def sports_predict_try_def and_then_def
           split: sum.splits if_splits)

lemma crypto_predict_200:
  assumes "snd (crypto_predict hash fmt now data) = 200"
  shows "\<exists>coin timeframe.
           process_crypto_prediction hash fmt now coin timeframe
             = Inr (fst (crypto_predict hash fmt now data))"
  using assms
  by (auto simp: crypto_predict_def crypto_predict_try_def and_then_def
           split: sum.splits if_splits)

lemma sports_timestamp:
  "json_field (process_sports_prediction hash now sport team1 team2) ''timestamp''
     = Some (JStr now)"
  by (simp add: process_sports_prediction_def Let_def)

lemma crypto_timestamp:
  "process_crypto_prediction hash fmt now coin timeframe = Inr r \<Longrightarrow>
     json_field r ''timestamp'' = Some (JStr now)"
  by (auto simp: process_crypto_prediction_def Let_def and_then_def split: sum.splits)

text \<open>
  Claim C5, as amended. The responses of \<open>GET /\<close> and \<open>GET /health\<close>, and
  every response with status 200 of \<open>POST /sports/predict\<close> and of
  \<open>POST /crypto/predict\<close>, hold under \<open>timestamp\<close> the ISO string of the clock;
  the response of \<open>GET /services\<close> has no \<open>timestamp\<close>.
\<close>

theorem timestamps:
  "json_field (fst (home now)) ''timestamp'' = Some (JStr now)
   \<and> json_field (fst (health now)) ''timestamp'' = Some (JStr now)
   \<and> (snd (sports_predict hash now data) = 200 \<longrightarrow>
        json_field (fst (sports_predict hash now data)) ''timestamp'' = Some (JStr now))
   \<and> (snd (crypto_predict hash fmt now data') = 200 \<longrightarrow>
        json_field (fst (crypto_predict hash fmt now data')) ''timestamp'' = Some (JStr now))
   \<and> json_field (fst services) ''timestamp'' = None"
proof (intro conjI impI)
  show "json_field (fst (home now)) ''timestamp'' = Some (JStr now)"
    by (simp add: home_def)
  show "json_field (fst (health now)) ''timestamp'' = Some (JStr now)"
    by (simp add: health_def)
  show "json_field (fst services) ''timestamp'' = None"
    by (simp add: services_def)
next
  assume "snd (sports_predict hash now data) = 200"
  from sports_predict_200 [OF this] show
    "json_field (fst (sports_predict hash now data)) ''timestamp'' = Some (JStr now)"
    by (auto simp: sports_timestamp)
next
  assume "snd (crypto_predict hash fmt now data') = 200"
  from crypto_predict_200 [OF this] show
    "json_field (fst (crypto_predict hash fmt now data')) ''timestamp'' = Some (JStr now)"
    by (auto dest: crypto_timestamp)
qed

lemma lower_Celtics: "lower ''Celtics'' = ''celtics''"
  by (simp add: lower_def lower_char_def ascii_uppercase_def ascii_lowercase_def)

lemma lower_Lakers: "lower ''Lakers'' = ''lakers''"
  by (simp add: lower_def lower_char_def ascii_uppercase_def ascii_lowercase_def)

lemma lower_Bitcoin: "lower ''Bitcoin'' = ''bitcoin''"
  by (simp add: lower_def lower_char_def ascii_uppercase_def ascii_lowercase_def)

lemma two_teams_response:
  "sports_predict hash now request_two_teams
     = (process_sports_prediction hash now (JStr ''nba'') ''celtics'' ''lakers'', 200)"
  by (simp add: sports_predict_def sports_predict_try_def and_then_def request_two_teams_def
        lower_Celtics lower_Lakers)

lemma bitcoin_status:
  "snd (crypto_predict hash fmt now request_bitcoin) = 200"
  by (simp add: crypto_predict_def crypto_predict_try_def and_then_def request_bitcoin_def
        lower_Bitcoin process_crypto_prediction_def Let_def price_targets_def)

theorem timestamps_witness:
  "snd (sports_predict demo_hash demo_now request_two_teams) = 200
   \<and> json_field (fst (sports_predict demo_hash demo_now request_two_teams)) ''timestamp''
       = Some (JStr demo_now)
   \<and> snd (crypto_predict demo_hash demo_fmt demo_now request_bitcoin) = 200
   \<and> json_field (fst (crypto_predict demo_hash demo_fmt demo_now request_bitcoin)) ''timestamp''
       = Some (JStr demo_now)"
proof -
  have a: "snd (sports_predict demo_hash demo_now request_two_teams) = 200"
    by (simp add: two_teams_response)
  have b: "snd (crypto_predict demo_hash demo_fmt demo_now request_bitcoin) = 200"
    by (rule bitcoin_status)
  from a b
    timestamps [of demo_now demo_hash request_two_teams demo_fmt request_bitcoin]
  show ?thesis by blast
qed

text \<open>
  Claim C6 as stated fails: in the request \<open>{"team1": "", "team2": 5}\<close>
  \<open>team1\<close> is the empty string, and the response is the 500 of the exception handler:
  \<open>(5).lower()\<close> raises before the teams are tested.
\<close>

theorem numeric_team2_gets_500:
  "team_field request_numeric_team2 ''team1'' = Some []
   \<and> sports_predict demo_hash demo_now request_numeric_team2
       = (JObj [(''error'', JStr ''Sports intelligence temporarily unavailable'')], 500)"
  by (simp add: team_field_def request_numeric_team2_def sports_predict_def
        sports_predict_try_def and_then_def lower_def)

lemma lower_Nil_iff: "lower s = [] \<longleftrightarrow> s = []"
  by (simp add: lower_def)

text \<open>
  Claim C6, as amended. When the request is an object in which \<open>team1\<close> and
  \<open>team2\<close> are each absent or a string, \<open>POST /sports/predict\<close> returns 400 with
  the body \<open>{"error": "Both team1 and team2 are required"}\<close> if one of them is absent
  or empty, and 200 with the prediction for the two lower-cased teams otherwise. When the
  request is no object, or one of the two is present and no string, it returns the 500
  response.
\<close>

theorem sports_predict_responses:
  "(team_field data ''team1'' = Some a \<and> team_field data ''team2'' = Some b
      \<and> (a = [] \<or> b = []) \<longrightarrow>
      sports_predict hash now data
        = (JObj [(''error'', JStr ''Both team1 and team2 are required'')], 400))
   \<and> (team_field data ''team1'' = Some a \<and> team_field data ''team2'' = Some b
      \<and> a \<noteq> [] \<and> b \<noteq> [] \<longrightarrow>
      (\<exists>sport. sports_predict hash now data
         = (process_sports_prediction hash now sport (lower a) (lower b), 200)))
   \<and> (team_field data ''team1'' = None \<or> team_field data ''team2'' = None \<longrightarrow>
      sports_predict hash now data
        = (JObj [(''error'', JStr ''Sports intelligence temporarily unavailable'')], 500))"
proof (cases data)
  case (JObj kvs)
  show ?thesis
    unfolding JObj
    by (auto simp: team_field_def sports_predict_def sports_predict_try_def and_then_def
          lower_Nil_iff split: option.splits json.splits)
qed (simp_all add: team_field_def sports_predict_def sports_predict_try_def and_then_def)

theorem sports_predict_responses_witness:
  "sports_predict demo_hash demo_now request_empty_team1
     = (JObj [(''error'', JStr ''Both team1 and team2 are required'')], 400)
   \<and> (\<exists>sport. sports_predict demo_hash demo_now request_two_teams
         = (process_sports_prediction demo_hash demo_now sport (lower ''Celtics'')
              (lower ''Lakers''), 200))
   \<and> sports_predict demo_hash demo_now request_numeric_team2
        = (JObj [(''error'', JStr ''Sports intelligence temporarily unavailable'')], 500)"
proof -
  have a: "team_field request_empty_team1 ''team1'' = Some []"
          "team_field request_empty_team1 ''team2'' = Some ''Lakers''"
    by (simp_all add: team_field_def request_empty_team1_def)
  have b: "team_field request_two_teams ''team1'' = Some ''Celtics''"
          "team_field request_two_teams ''team2'' = Some ''Lakers''"
    by (simp_all add: team_field_def request_two_teams_def)
  have c: "team_field request_numeric_team2 ''team2'' = None"
    by (simp add: team_field_def request_numeric_team2_def)
  from a sports_predict_responses [of request_empty_team1 "[]" "''Lakers''" demo_hash demo_now]
  have 1: "sports_predict demo_hash demo_now request_empty_team1
     = (JObj [(''error'', JStr ''Both team1 and team2 are required'')], 400)" by blast
  from b sports_predict_responses
    [of request_two_teams "''Celtics''" "''Lakers''" demo_hash demo_now]
  have 2: "\<exists>sport. sports_predict demo_hash demo_now request_two_teams
         = (process_sports_prediction demo_hash demo_now sport (lower ''Celtics'')
              (lower ''Lakers''), 200)" by simp
  from c sports_predict_responses [of request_numeric_team2 "[]" "[]" demo_hash demo_now]
  have 3: "sports_predict demo_hash demo_now request_numeric_team2
        = (JObj [(''error'', JStr ''Sports intelligence temporarily unavailable'')], 500)"
    by blast
  from 1 2 3 show ?thesis by blast
qed

section \<open>Template validation\<close>

lemma missing_from_obj: "missing_from (JObj kvs) names = Inr (absent_keys kvs names)"
  by (induction names) (simp_all add: absent_keys_def and_then_def)

lemma structure_of_obj:
  "validate_template_structure (JObj kvs) =
     Inr (if absent_keys kvs required_fields = [] then (AllFieldsPresent, True)
          else (MissingRequiredFields (absent_keys kvs required_fields), False))"
  by (simp add: validate_template_structure_def missing_from_obj and_then_def)

lemma only_labor_rates_absent:
  assumes "\<forall>name \<in> set required_fields. name \<in> set (map fst kvs) \<longleftrightarrow> name \<noteq> ''labor_rates''"
  shows "absent_keys kvs required_fields = [''labor_rates'']"
  using assms by (simp add: absent_keys_def required_fields_def)

lemma phases_loop_first_bad:
  assumes "list_all passes_phase_check good"
    and "absent_keys bkvs required_phase_fields \<noteq> []"
  shows "phases_loop n (good @ JObj bkvs # rest) i total_tasks total_materials =
           Inr (PhaseMissingFields (i + length good)
                  (absent_keys bkvs required_phase_fields), False)"
  using assms(1)
proof (induction good arbitrary: i total_tasks total_materials)
  case Nil
  with assms(2) show ?case by (simp add: missing_from_obj and_then_def)
next
  case (Cons ph good)
  from Cons.prems have ok: "passes_phase_check ph" and rest: "list_all passes_phase_check good"
    by simp_all
  from ok obtain a b where
    m: "missing_from ph required_phase_fields = Inr []"
    and a: "and_then (json_get ph ''tasks'' (JArr [])) json_len = Inr a"
    and b: "and_then (json_get ph ''materials'' (JArr [])) json_len = Inr b"
    unfolding passes_phase_check_def
    by (metis isl_def sum.collapse(2))
  show ?case
    by (simp add: m a b and_then_def [of "Inr _"] Cons.IH [OF rest])
qed

lemma validate_phases_first_bad:
  assumes "list_all passes_phase_check good"
    and "absent_keys bkvs required_phase_fields \<noteq> []"
  shows "validate_phases (JArr (good @ JObj bkvs # rest)) =
           Inr (PhaseMissingFields (length good + 1)
                  (absent_keys bkvs required_phase_fields), False)"
  using phases_loop_first_bad [OF assms, of _ rest 1 0 0] by simp

lemma main_stops_at_structure:
  assumes "kvs \<noteq> []" and "absent_keys kvs required_fields \<noteq> []"
  shows "main_validation (JObj kvs) =
           Inr ([MissingRequiredFields (absent_keys kvs required_fields)], False)"
  using assms by (simp add: main_validation_def structure_of_obj and_then_def)

text \<open>
  Claim C4, as amended. \<open>validate_template_structure\<close> reports the complete list of
  the required top-level fields an object lacks, in the order of the required list; an
  object that lacks \<open>labor_rates\<close> only reports exactly \<open>["labor_rates"]\<close>.
  \<open>validate_phases\<close> reports the complete list of the fields missing from the first
  phase that lacks one, with the number of that phase, and looks at no later phase. \<open>main\<close>
  stops after the top-level report when a top-level field is missing, and validates no
  phase then.
\<close>

theorem validation_reports:
  "validate_template_structure (JObj kvs) =
     Inr (if absent_keys kvs required_fields = [] then (AllFieldsPresent, True)
          else (MissingRequiredFields (absent_keys kvs required_fields), False))
   \<and> ((\<forall>name \<in> set required_fields. name \<in> set (map fst kvs) \<longleftrightarrow> name \<noteq> ''labor_rates'') \<longrightarrow>
        validate_template_structure (JObj kvs)
          = Inr (MissingRequiredFields [''labor_rates''], False))
   \<and> (list_all passes_phase_check good \<and> absent_keys bkvs required_phase_fields \<noteq> [] \<longrightarrow>
        validate_phases (JArr (good @ JObj bkvs # rest)) =
          Inr (PhaseMissingFields (length good + 1)
                 (absent_keys bkvs required_phase_fields), False))
   \<and> (kvs \<noteq> [] \<and> absent_keys kvs required_fields \<noteq> [] \<longrightarrow>
        main_validation (JObj kvs) =
          Inr ([MissingRequiredFields (absent_keys kvs required_fields)], False))"
  using structure_of_obj [of kvs] only_labor_rates_absent [of kvs]
    validate_phases_first_bad [of good bkvs rest] main_stops_at_structure [of kvs]
  by (simp del: One_nat_def)

lemma good_phase_passes: "passes_phase_check good_phase"
  by (simp add: passes_phase_check_def good_phase_def required_phase_fields_def and_then_def)

lemma absent_in_phase_without_id:
  "absent_keys fields_without_id required_phase_fields = [''phase_id'']"
  by (simp add: absent_keys_def fields_without_id_def required_phase_fields_def)

lemma absent_in_doc_without_labor_rates:
  "absent_keys fields_without_labor_rates required_fields = [''labor_rates'']"
  by (simp add: absent_keys_def fields_without_labor_rates_def required_fields_def)

theorem validation_reports_witness:
  "validate_template_structure doc_without_labor_rates
     = Inr (MissingRequiredFields [''labor_rates''], False)
   \<and> validate_phases (JArr [good_phase, phase_without_id, phase_without_tasks])
     = Inr (PhaseMissingFields 2 [''phase_id''], False)
   \<and> main_validation doc_without_labor_rates
     = Inr ([MissingRequiredFields [''labor_rates'']], False)"
proof -
  have h1: "\<forall>name \<in> set required_fields.
              name \<in> set (map fst fields_without_labor_rates) \<longleftrightarrow> name \<noteq> ''labor_rates''"
    by (simp add: required_fields_def fields_without_labor_rates_def)
  have h2: "list_all passes_phase_check [good_phase]
            \<and> absent_keys fields_without_id required_phase_fields \<noteq> []"
    by (simp add: good_phase_passes absent_in_phase_without_id)
  have h3: "fields_without_labor_rates \<noteq> []
            \<and> absent_keys fields_without_labor_rates required_fields \<noteq> []"
    by (simp add: absent_in_doc_without_labor_rates) (simp add: fields_without_labor_rates_def)
  from h1 h2 h3
    validation_reports [of fields_without_labor_rates "[good_phase]" fields_without_id
       "[phase_without_tasks]"]
  show ?thesis
    by (simp add: doc_without_labor_rates_def phase_without_id_def absent_in_phase_without_id
          absent_in_doc_without_labor_rates)
qed

text \<open>
  Claim C4 as stated fails. In a document whose second phase lacks \<open>phase_id\<close> and
  whose third phase lacks \<open>tasks\<close>, only the second phase is reported; in a document
  that lacks \<open>job_id\<close> and whose phase lacks \<open>phase_id\<close>, only \<open>job_id\<close> is
  reported.
\<close>

theorem validation_stops_at_first:
  "main_validation (doc_with_phases (JArr [good_phase, phase_without_id, phase_without_tasks]))
     = Inr ([AllFieldsPresent, PhaseMissingFields 2 [''phase_id'']], False)
   \<and> missing_from phase_without_tasks required_phase_fields = Inr [''tasks'']
   \<and> main_validation doc_without_job_id = Inr ([MissingRequiredFields [''job_id'']], False)
   \<and> missing_from phase_without_id required_phase_fields = Inr [''phase_id'']"
  by (simp add: main_validation_def doc_with_phases_def doc_without_job_id_def
        validate_template_structure_def required_fields_def required_phase_fields_def
        and_then_def good_phase_def phase_without_id_def fields_without_id_def
        phase_without_tasks_def)

section \<open>The estimates\<close>

subsection \<open>The loops compute the raw sums\<close>

lemma and_then_Inr_iff: "and_then m f = Inr y \<longleftrightarrow> (\<exists>x. m = Inr x \<and> f x = Inr y)"
  by (cases m) (simp_all add: and_then_def)

lemma subscript_Inr_iff: "subscript v k = Inr x \<longleftrightarrow> v = Some x"
  by (cases v) (simp_all add: subscript_def)

lemma select_phases_eq:
  "select_phases ids ps =
     (if list_all has_phase_id ps then Inr (filter (id_among ids) ps)
      else Inl (KeyError ''phase_id''))"
proof (induction ps)
  case Nil
  show ?case by simp
next
  case (Cons p ps)
  show ?case
  proof (cases "phase_id p")
    case None
    then show ?thesis by (simp add: subscript_def and_then_def has_phase_id_def)
  next
    case (Some i)
    then have "id_among ids p \<longleftrightarrow> i \<in> set ids" "has_phase_id p"
      by (simp_all add: id_among_def has_phase_id_def)
    with Some show ?thesis
      by (simp add: Cons.IH subscript_def and_then_def)
  qed
qed

lemma included_phases_eq:
  "included_phases t scf =
     (case phases t of
        None \<Rightarrow> Inl (KeyError ''phases'')
      | Some ps \<Rightarrow>
          (case get_or (phases_included scf) All of
             All \<Rightarrow> Inr ps
           | Only ids \<Rightarrow>
               if list_all has_phase_id ps then Inr (filter (id_among ids) ps)
               else Inl (KeyError ''phase_id'')))"
  by (simp add: included_phases_def subscript_def and_then_def select_phases_eq
        split: option.splits phases_sel.splits)

lemma labor_items_sum:
  "for_each (labor_item t ph) tks = Inr its \<Longrightarrow>
     foldl add_item (h, m) its = (h + sum_list (map task_hours tks), m)"
proof (induction tks arbitrary: its h)
  case Nil
  then show ?case by simp
next
  case (Cons tk tks)
  from Cons.prems obtain it rest where
    it: "labor_item t ph tk = Inr it" and rest: "for_each (labor_item t ph) tks = Inr rest"
    and its: "its = it # rest"
    by (auto simp: and_then_Inr_iff)
  from it obtain pn d r c where "it = LaborItem pn d (task_hours tk) r c"
    by (auto simp: labor_item_def and_then_Inr_iff Let_def task_hours_def)
  then show ?case
    by (simp add: its Cons.IH [OF rest] add.assoc)
qed

lemma material_items_sum:
  "for_each (material_item ph) ms = Inr its \<Longrightarrow>
     foldl add_item (h, m) its = (h, m + sum_list (map material_line_cost ms))"
proof (induction ms arbitrary: its m)
  case Nil
  then show ?case by simp
next
  case (Cons x ms)
  from Cons.prems obtain it rest where
    it: "material_item ph x = Inr it" and rest: "for_each (material_item ph) ms = Inr rest"
    and its: "its = it # rest"
    by (auto simp: and_then_Inr_iff)
  from it obtain pn d q u uc w where "it = MaterialItem pn d q u uc w (material_line_cost x)"
    by (auto simp: material_item_def and_then_Inr_iff Let_def material_line_cost_def)
  then show ?case
    by (simp add: its Cons.IH [OF rest] add.assoc)
qed

lemma process_phase_sum:
  assumes "process_phase t ph = Inr its"
  shows "foldl add_item (h, m) its =
           (h + sum_list (map task_hours (get_or (tasks ph) [])),
            m + sum_list (map material_line_cost (get_or (materials ph) [])))"
proof -
  from assms obtain labor mats where
    l: "for_each (labor_item t ph) (get_or (tasks ph) []) = Inr labor"
    and ms: "for_each (material_item ph) (get_or (materials ph) []) = Inr mats"
    and its: "its = labor @ mats"
    by (auto simp: process_phase_def and_then_Inr_iff)
  show ?thesis
    by (simp add: its labor_items_sum [OF l] material_items_sum [OF ms])
qed

lemma estimate_loop_sum:
  "estimate_loop t ps (items, h, m) = Inr (items', h', m') \<Longrightarrow>
     (\<exists>xs. for_each (process_phase t) ps = Inr xs \<and> items' = items @ concat xs)
     \<and> h' = h + raw_labor_hours ps \<and> m' = m + raw_material_cost ps"
proof (induction ps arbitrary: items h m)
  case Nil
  then show ?case by (simp add: raw_labor_hours_def raw_material_cost_def)
next
  case (Cons ph ps)
  from Cons.prems obtain its where
    p: "process_phase t ph = Inr its"
    and r: "estimate_loop t ps (items @ its, foldl add_item (h, m) its) = Inr (items', h', m')"
    by (auto simp: and_then_Inr_iff)
  note r' = r [unfolded process_phase_sum [OF p]]
  from Cons.IH [OF r'] p show ?case
    by (auto simp: and_then_def raw_labor_hours_def raw_material_cost_def add.assoc)
qed

lemma foldl_plus: "foldl (\<lambda>acc x. acc + f x) (a :: rat) xs = a + sum_list (map f xs)"
  by (induction xs arbitrary: a) (simp_all add: add.assoc)

lemma phase_labor_hours_eq:
  "phase_labor_hours ph = sum_list (map task_hours (get_or (tasks ph) []))"
  unfolding phase_labor_hours_def
  using foldl_plus [of task_hours 0 "get_or (tasks ph) []"]
  by (simp add: task_hours_def [abs_def])

lemma phase_material_cost_eq:
  "phase_material_cost ph = sum_list (map material_line_cost (get_or (materials ph) []))"
  unfolding phase_material_cost_def
  using foldl_plus [of material_line_cost 0 "get_or (materials ph) []"]
  by (simp add: material_line_cost_def [abs_def])

lemma sample_loop_sum:
  "sample_loop ps (h, m) = Inr (h', m') \<Longrightarrow>
     h' = h + raw_labor_hours ps \<and> m' = m + raw_material_cost ps"
proof (induction ps arbitrary: h m)
  case Nil
  then show ?case by (simp add: raw_labor_hours_def raw_material_cost_def)
next
  case (Cons ph ps)
  from Cons.prems have
    "sample_loop ps (h + phase_labor_hours ph, m + phase_material_cost ph) = Inr (h', m')"
    by (auto simp: and_then_Inr_iff Let_def)
  from Cons.IH [OF this] show ?case
    by (simp add: raw_labor_hours_def raw_material_cost_def phase_labor_hours_eq
          phase_material_cost_eq add.assoc)
qed

subsection \<open>What the two estimators return\<close>

lemma estimate_for_result:
  assumes "estimate_for t p = Inr e"
  shows "\<exists>scf incl xs c1 c2 mm rate.
           scope_factor_of t (scope p) = Some scf
           \<and> included_phases t scf = Inr incl
           \<and> for_each (process_phase t) incl = Inr xs
           \<and> line_items e = concat xs
           \<and> size_complexity t (kitchen_size p) = Some c1
           \<and> scope_complexity t (scope p) = Some c2
           \<and> quality_multiplier t (quality_tier p) = Some mm
           \<and> skilled_typical_rate t = Some rate
           \<and> totals e =
               \<lparr>labor_hours = raw_labor_hours incl * (c1 * c2),
                labor_cost = raw_labor_hours incl * (c1 * c2) * rate,
                material_cost = raw_material_cost incl * mm,
                total_cost = raw_labor_hours incl * (c1 * c2) * rate
                             + raw_material_cost incl * mm\<rparr>"
proof -
  from assms obtain sz sizes sf scopes scf tiers qf incl items h m c1 c2 mm rates skilled rate
    where sz: "sizing_factors t = Some sz"
      and sizes: "by_kitchen_size sz = Some sizes"
      and sf: "sizes (kitchen_size p) = Some sf"
      and scopes: "by_renovation_scope sz = Some scopes"
      and scf: "scopes (scope p) = Some scf"
      and tiers: "quality_tiers t = Some tiers"
      and qf: "tiers (quality_tier p) = Some qf"
      and incl: "included_phases t scf = Inr incl"
      and loop: "estimate_loop t incl ([], 0, 0) = Inr (items, h, m)"
      and c1: "complexity_multiplier sf = Some c1"
      and c2: "complexity_multiplier scf = Some c2"
      and mm: "material_multiplier qf = Some mm"
      and rates: "labor_rates t = Some rates"
      and skilled: "rates ''skilled'' = Some skilled"
      and rate: "typical skilled = Some rate"
      and e: "e = \<lparr>line_items = items,
                    totals = \<lparr>labor_hours = h * (c1 * c2), labor_cost = h * (c1 * c2) * rate,
                               material_cost = m * mm,
                               total_cost = h * (c1 * c2) * rate + m * mm\<rparr>\<rparr>"
    by (auto simp: estimate_for_def and_then_Inr_iff subscript_Inr_iff Let_def
          split: prod.splits if_splits)
  from estimate_loop_sum [OF loop] obtain xs where
    xs: "for_each (process_phase t) incl = Inr xs" "items = concat xs"
    and h: "h = raw_labor_hours incl" and m: "m = raw_material_cost incl"
    by auto
  show ?thesis
    using scf incl xs
    by (simp add: e h m scope_factor_of_def size_complexity_def size_factor_of_def
          scope_complexity_def quality_multiplier_def skilled_typical_rate_def
          sz sizes sf scopes tiers qf c1 c2 mm rates skilled rate)
qed

lemma sample_result:
  assumes "calculate_sample_estimate t sz sc = Inr (Some r)"
  shows "\<exists>scf incl rate.
           scope_factor_of t sc = Some scf
           \<and> included_phases t scf = Inr incl
           \<and> skilled_typical_rate t = Some rate
           \<and> r = \<lparr>labor_hours = raw_labor_hours incl * sample_complexity t sz sc,
                  labor_cost = raw_labor_hours incl * sample_complexity t sz sc * rate,
                  material_cost = raw_material_cost incl * sample_complexity t sz sc,
                  total_cost = raw_labor_hours incl * sample_complexity t sz sc * rate
                               + raw_material_cost incl * sample_complexity t sz sc\<rparr>"
proof -
  from assms obtain szs sizes scopes incl rates h m skilled rate
    where szs: "sizing_factors t = Some szs"
      and sizes: "by_kitchen_size szs = Some sizes"
      and scopes: "by_renovation_scope szs = Some scopes"
      and t1: "truthy (get_or (sizes sz) empty_dict)"
      and t2: "truthy (get_or (scopes sc) empty_dict)"
      and incl: "included_phases t (get_or (scopes sc) empty_dict) = Inr incl"
      and rates: "labor_rates t = Some rates"
      and loop: "sample_loop incl (0, 0) = Inr (h, m)"
      and skilled: "rates ''skilled'' = Some skilled"
      and rate: "typical skilled = Some rate"
      and r: "r = \<lparr>labor_hours =
                     h * (get_or (complexity_multiplier (get_or (sizes sz) empty_dict)) 1
                          * get_or (complexity_multiplier (get_or (scopes sc) empty_dict)) 1),
                   labor_cost =
                     h * (get_or (complexity_multiplier (get_or (sizes sz) empty_dict)) 1
                          * get_or (complexity_multiplier (get_or (scopes sc) empty_dict)) 1)
                       * rate,
                   material_cost =
                     m * (get_or (complexity_multiplier (get_or (sizes sz) empty_dict)) 1
                          * get_or (complexity_multiplier (get_or (scopes sc) empty_dict)) 1),
                   total_cost =
                     h * (get_or (complexity_multiplier (get_or (sizes sz) empty_dict)) 1
                          * get_or (complexity_multiplier (get_or (scopes sc) empty_dict)) 1)
                       * rate
                     + m * (get_or (complexity_multiplier (get_or (sizes sz) empty_dict)) 1
                          * get_or (complexity_multiplier (get_or (scopes sc) empty_dict)) 1)\<rparr>"
    by (auto simp: calculate_sample_estimate_def and_then_Inr_iff subscript_Inr_iff Let_def
          split: prod.splits if_splits)
  from t1 obtain sf where sf: "sizes sz = Some sf"
    by (cases "sizes sz") (simp_all add: get_or_def truthy_def)
  from t2 obtain scf where scf: "scopes sc = Some scf"
    by (cases "scopes sc") (simp_all add: get_or_def truthy_def)
  from sample_loop_sum [OF loop] have
    h: "h = raw_labor_hours incl" and m: "m = raw_material_cost incl" by auto
  have c: "sample_complexity t sz sc =
             get_or (complexity_multiplier sf) 1 * get_or (complexity_multiplier scf) 1"
    by (simp add: sample_complexity_def size_complexity_def scope_complexity_def
          size_factor_of_def scope_factor_of_def szs sizes scopes sf scf get_or_def
          split: option.splits)
  show ?thesis
    using incl r
    by (simp add: scope_factor_of_def skilled_typical_rate_def szs scopes scf sf rates
          skilled rate h m c get_or_def)
qed

subsection \<open>The sample template\<close>

lemma scenario_2_params:
  "parse_natural_language scenario_2 =
     \<lparr>kitchen_size = ''large'', scope = ''gut_renovation'', quality_tier = ''luxury''\<rparr>"
  unfolding parse_natural_language_def lower_scenario_2 Let_def any_word_in_def
  by (simp add: sublist_Cons_right)

lemma demo_fields:
  "phases demo_template = Some demo_phases"
  "labor_rates demo_template = Some [''skilled'' \<mapsto> \<lparr>typical = Some 50\<rparr>]"
  "sizing_factors demo_template =
     Some \<lparr>by_kitchen_size = Some demo_sizes, by_renovation_scope = Some demo_scopes\<rparr>"
  "quality_tiers demo_template = Some demo_tiers"
  by (simp_all add: demo_template_def)

lemma demo_lookups:
  "demo_sizes ''large'' =
     Some \<lparr>complexity_multiplier = Some (3 / 2), phases_included = None, other_keys = []\<rparr>"
  "demo_sizes ''small'' =
     Some \<lparr>complexity_multiplier = Some (1 / 2), phases_included = None, other_keys = []\<rparr>"
  "demo_scopes ''gut_renovation'' =
     Some \<lparr>complexity_multiplier = Some 2, phases_included = None, other_keys = []\<rparr>"
  "demo_scopes ''cosmetic'' =
     Some \<lparr>complexity_multiplier = Some (1 / 2), phases_included = Some (Only [''cabinets'']),
           other_keys = []\<rparr>"
  "demo_tiers ''luxury'' = Some \<lparr>material_multiplier = Some 2\<rparr>"
  by (simp_all add: demo_sizes_def demo_scopes_def demo_tiers_def)

lemma demo_all_phases:
  "included_phases demo_template
     \<lparr>complexity_multiplier = Some 2, phases_included = None, other_keys = []\<rparr>
     = Inr demo_phases"
  by (simp add: included_phases_def demo_fields get_or_def subscript_def)

lemma demo_cabinets_only:
  "included_phases demo_template
     \<lparr>complexity_multiplier = Some (1 / 2), phases_included = Some (Only [''cabinets'']),
      other_keys = []\<rparr>
     = Inr [demo_cabinets]"
  by (simp add: included_phases_def demo_fields get_or_def subscript_def and_then_def
        demo_phases_def demo_demolition_def demo_cabinets_def)

lemma demo_loop:
  "estimate_loop demo_template demo_phases ([], 0, 0) =
     Inr ([LaborItem ''Demolition'' ''Remove old cabinets'' 8 50 400,
           MaterialItem ''Demolition'' ''Dumpster rental'' 1 ''each'' 400 0 400,
           LaborItem ''Cabinet Installation'' ''Install cabinets'' 16 50 800,
           MaterialItem ''Cabinet Installation'' ''Base cabinets'' 10 ''linear_ft'' 300
             (1 / 4) 3750], 24, 4150)"
  by (simp add: demo_phases_def demo_demolition_def demo_cabinets_def process_phase_def
        labor_item_def material_item_def demo_fields get_or_def subscript_def and_then_def
        Let_def)

lemma demo_sample_loop: "sample_loop demo_phases (0, 0) = Inr (24, 4150)"
  by (simp add: demo_phases_def demo_demolition_def demo_cabinets_def phase_labor_hours_def
        phase_material_cost_def get_or_def subscript_def and_then_def Let_def)

lemma demo_sample_loop_cabinets: "sample_loop [demo_cabinets] (0, 0) = Inr (16, 3750)"
  by (simp add: demo_phases_def demo_demolition_def demo_cabinets_def phase_labor_hours_def
        phase_material_cost_def get_or_def subscript_def and_then_def Let_def)

lemma demo_generate:
  "generate_estimate demo_template scenario_2 =
     Inr \<lparr>line_items =
            [LaborItem ''Demolition'' ''Remove old cabinets'' 8 50 400,
             MaterialItem ''Demolition'' ''Dumpster rental'' 1 ''each'' 400 0 400,
             LaborItem ''Cabinet Installation'' ''Install cabinets'' 16 50 800,
             MaterialItem ''Cabinet Installation'' ''Base cabinets'' 10 ''linear_ft'' 300
               (1 / 4) 3750],
          totals = \<lparr>labor_hours = 72, labor_cost = 3600, material_cost = 8300,
                     total_cost = 11900\<rparr>\<rparr>"
  unfolding generate_estimate_def scenario_2_params estimate_for_def
  by (simp add: demo_fields demo_lookups subscript_def and_then_def demo_all_phases
        demo_loop Let_def)

lemma demo_sample:
  "calculate_sample_estimate demo_template ''large'' ''gut_renovation'' =
     Inr (Some \<lparr>labor_hours = 72, labor_cost = 3600, material_cost = 12450,
                 total_cost = 16050\<rparr>)"
  unfolding calculate_sample_estimate_def
  by (simp add: demo_fields demo_lookups subscript_def and_then_def demo_all_phases
        demo_sample_loop get_or_def Let_def truthy_def empty_dict_def)

lemma demo_sample_cosmetic:
  "calculate_sample_estimate demo_template ''small'' ''cosmetic'' =
     Inr (Some \<lparr>labor_hours = 4, labor_cost = 200, material_cost = 1875 / 2,
                 total_cost = 2275 / 2\<rparr>)"
  unfolding calculate_sample_estimate_def
  by (simp add: demo_fields demo_lookups subscript_def and_then_def demo_cabinets_only
        demo_sample_loop_cabinets get_or_def Let_def truthy_def empty_dict_def
        del: sample_loop.simps)

lemma demo_raw:
  "raw_labor_hours demo_phases = 24" "raw_material_cost demo_phases = 4150"
  by (simp_all add: raw_labor_hours_def raw_material_cost_def demo_phases_def
        demo_demolition_def demo_cabinets_def get_or_def task_hours_def material_line_cost_def)

lemma demo_factors:
  "scope_factor_of demo_template ''gut_renovation''
     = Some \<lparr>complexity_multiplier = Some 2, phases_included = None, other_keys = []\<rparr>"
  "size_complexity demo_template ''large'' = Some (3 / 2)"
  "scope_complexity demo_template ''gut_renovation'' = Some 2"
  "skilled_typical_rate demo_template = Some 50"
  "quality_multiplier demo_template ''budget'' = Some (3 / 4)"
  "quality_multiplier demo_template ''mid_range'' = Some 1"
  "quality_multiplier demo_template ''high_end'' = Some (3 / 2)"
  "quality_multiplier demo_template ''luxury'' = Some 2"
  by (simp_all add: scope_factor_of_def size_complexity_def size_factor_of_def
        scope_complexity_def skilled_typical_rate_def quality_multiplier_def
        demo_fields demo_sizes_def demo_scopes_def demo_tiers_def)

lemma demo_included: "included_for demo_template ''gut_renovation'' = Some demo_phases"
  by (simp add: included_for_def demo_factors demo_all_phases)

lemma included_for_eq:
  "scope_factor_of t sc = Some scf \<Longrightarrow> included_phases t scf = Inr incl \<Longrightarrow>
     included_for t sc = Some incl"
  by (simp add: included_for_def)

text \<open>
  Claim C1. For the same template and the same parameters, the material cost
  \<open>calculate_sample_estimate\<close> returns is the raw material cost of the included phases
  times the size and scope complexity multipliers (an absent one counting as 1), with no
  quality multiplier; the material cost \<open>generate_estimate\<close> returns is the same raw
  material cost times the material multiplier of the quality tier, with no complexity
  multiplier. There are a template and a description for which the two return different
  material costs and different total costs.
\<close>

theorem material_cost_paths:
  "(calculate_sample_estimate t sz sc = Inr (Some r) \<longrightarrow>
      Some (material_cost r) = complexity_adjusted_material_cost t sz sc)
   \<and> (generate_estimate t d = Inr e \<longrightarrow>
      Some (material_cost (totals e))
        = quality_adjusted_material_cost t (scope (parse_natural_language d))
            (quality_tier (parse_natural_language d)))
   \<and> (\<exists>t' d' e' r'.
        generate_estimate t' d' = Inr e'
        \<and> calculate_sample_estimate t' (kitchen_size (parse_natural_language d'))
              (scope (parse_natural_language d')) = Inr (Some r')
        \<and> material_cost (totals e') \<noteq> material_cost r'
        \<and> total_cost (totals e') \<noteq> total_cost r')"
proof (intro conjI impI)
  assume "calculate_sample_estimate t sz sc = Inr (Some r)"
  from sample_result [OF this] show
    "Some (material_cost r) = complexity_adjusted_material_cost t sz sc"
    by (auto simp: complexity_adjusted_material_cost_def included_for_eq)
next
  assume "generate_estimate t d = Inr e"
  from estimate_for_result [OF this [unfolded generate_estimate_def]] show
    "Some (material_cost (totals e))
        = quality_adjusted_material_cost t (scope (parse_natural_language d))
            (quality_tier (parse_natural_language d))"
    by (auto simp: quality_adjusted_material_cost_def included_for_eq)
next
  have "generate_estimate demo_template scenario_2 = Inr \<lparr>line_items =
            [LaborItem ''Demolition'' ''Remove old cabinets'' 8 50 400,
             MaterialItem ''Demolition'' ''Dumpster rental'' 1 ''each'' 400 0 400,
             LaborItem ''Cabinet Installation'' ''Install cabinets'' 16 50 800,
             MaterialItem ''Cabinet Installation'' ''Base cabinets'' 10 ''linear_ft'' 300
               (1 / 4) 3750],
          totals = \<lparr>labor_hours = 72, labor_cost = 3600, material_cost = 8300,
                     total_cost = 11900\<rparr>\<rparr>
        \<and> calculate_sample_estimate demo_template
              (kitchen_size (parse_natural_language scenario_2))
              (scope (parse_natural_language scenario_2))
            = Inr (Some \<lparr>labor_hours = 72, labor_cost = 3600, material_cost = 12450,
                 total_cost = 16050\<rparr>)"
    by (simp add: demo_generate scenario_2_params demo_sample)
  then show "\<exists>t' d' e' r'.
        generate_estimate t' d' = Inr e'
        \<and> calculate_sample_estimate t' (kitchen_size (parse_natural_language d'))
              (scope (parse_natural_language d')) = Inr (Some r')
        \<and> material_cost (totals e') \<noteq> material_cost r'
        \<and> total_cost (totals e') \<noteq> total_cost r'"
    by (intro exI [of _ demo_template] exI [of _ scenario_2]) auto
qed

theorem material_cost_paths_witness:
  "(\<exists>r. calculate_sample_estimate demo_template ''large'' ''gut_renovation'' = Inr (Some r)
        \<and> Some (material_cost r)
            = complexity_adjusted_material_cost demo_template ''large'' ''gut_renovation''
        \<and> material_cost r = 4150 * (3 / 2 * 2))
   \<and> (\<exists>e. generate_estimate demo_template scenario_2 = Inr e
        \<and> Some (material_cost (totals e))
            = quality_adjusted_material_cost demo_template ''gut_renovation'' ''luxury''
        \<and> material_cost (totals e) = 4150 * 2)"
proof -
  note s = demo_sample and g = demo_generate
  from s material_cost_paths
    [where t = demo_template and sz = "''large''" and sc = "''gut_renovation''"
       and r = "\<lparr>labor_hours = 72, labor_cost = 3600, material_cost = 12450,
                 total_cost = 16050\<rparr>"]
  have 1: "Some (material_cost \<lparr>labor_hours = 72, labor_cost = 3600, material_cost = 12450,
                 total_cost = 16050\<rparr>)
            = complexity_adjusted_material_cost demo_template ''large'' ''gut_renovation''"
    by blast
  from g material_cost_paths [where t = demo_template and d = scenario_2]
  obtain e where 2: "generate_estimate demo_template scenario_2 = Inr e"
    "Some (material_cost (totals e))
       = quality_adjusted_material_cost demo_template
           (scope (parse_natural_language scenario_2))
           (quality_tier (parse_natural_language scenario_2))"
    by blast
  from 2 g have 3: "material_cost (totals e) = 4150 * 2" by auto
  from 1 2 3 s show ?thesis
    by (simp add: scenario_2_params)
qed

subsection \<open>Total cost and included phases\<close>

lemma generate_costs:
  assumes "generate_estimate t d = Inr e"
  shows "Some (labor_cost (totals e))
           = adjusted_labor_cost t (kitchen_size (parse_natural_language d))
               (scope (parse_natural_language d))"
    and "Some (material_cost (totals e))
           = quality_adjusted_material_cost t (scope (parse_natural_language d))
               (quality_tier (parse_natural_language d))"
    and "total_cost (totals e) = labor_cost (totals e) + material_cost (totals e)"
  using estimate_for_result [OF assms [unfolded generate_estimate_def]]
  by (auto simp: adjusted_labor_cost_def quality_adjusted_material_cost_def included_for_eq
        mult.assoc)

lemma sample_costs:
  assumes "calculate_sample_estimate t sz sc = Inr (Some r)"
  shows "Some (total_cost r) = sample_total_cost t sz sc"
    and "total_cost r = labor_cost r + material_cost r"
  using sample_result [OF assms]
  by (auto simp: sample_total_cost_def included_for_eq)

text \<open>
  Claim C2, as amended. For every template and description for which
  \<open>generate_estimate\<close> returns, the total cost is the adjusted labor cost plus the
  adjusted material cost: the raw labor hours of the included phases times the size
  multiplier, the scope multiplier and the typical skilled rate, plus the raw material
  cost of the included phases times the material multiplier of the quality tier. For
  every template, size and scope for which \<open>calculate_sample_estimate\<close> returns
  totals, the total cost is the same labor cost plus the raw material cost times the size
  and scope multipliers (an absent multiplier counting as 1); no quality tier enters it.
\<close>

theorem total_cost_formula:
  "(generate_estimate t d = Inr e \<longrightarrow>
      Some (labor_cost (totals e))
        = adjusted_labor_cost t (kitchen_size (parse_natural_language d))
            (scope (parse_natural_language d))
      \<and> Some (material_cost (totals e))
        = quality_adjusted_material_cost t (scope (parse_natural_language d))
            (quality_tier (parse_natural_language d))
      \<and> total_cost (totals e) = labor_cost (totals e) + material_cost (totals e)
      \<and> Some (total_cost (totals e))
        = specified_total_cost t (kitchen_size (parse_natural_language d))
            (scope (parse_natural_language d)) (quality_tier (parse_natural_language d)))
   \<and> (calculate_sample_estimate t sz sc = Inr (Some r) \<longrightarrow>
      total_cost r = labor_cost r + material_cost r
      \<and> Some (total_cost r) = sample_total_cost t sz sc)"
proof (intro conjI impI)
  assume g: "generate_estimate t d = Inr e"
  note c = generate_costs [OF g]
  show "Some (labor_cost (totals e))
        = adjusted_labor_cost t (kitchen_size (parse_natural_language d))
            (scope (parse_natural_language d))" by (rule c(1))
  show "Some (material_cost (totals e))
        = quality_adjusted_material_cost t (scope (parse_natural_language d))
            (quality_tier (parse_natural_language d))" by (rule c(2))
  show "total_cost (totals e) = labor_cost (totals e) + material_cost (totals e)"
    by (rule c(3))
  show "Some (total_cost (totals e))
        = specified_total_cost t (kitchen_size (parse_natural_language d))
            (scope (parse_natural_language d)) (quality_tier (parse_natural_language d))"
    unfolding specified_total_cost_def c(1) [symmetric] c(2) [symmetric]
    by (simp add: c(3))
next
  assume s: "calculate_sample_estimate t sz sc = Inr (Some r)"
  show "total_cost r = labor_cost r + material_cost r" by (rule sample_costs(2) [OF s])
  show "Some (total_cost r) = sample_total_cost t sz sc" by (rule sample_costs(1) [OF s])
qed

theorem total_cost_formula_witness:
  "(\<exists>e. generate_estimate demo_template scenario_2 = Inr e
        \<and> Some (total_cost (totals e))
            = specified_total_cost demo_template ''large'' ''gut_renovation'' ''luxury''
        \<and> total_cost (totals e) = 24 * (3 / 2) * 2 * 50 + 4150 * 2)
   \<and> (\<exists>r. calculate_sample_estimate demo_template ''large'' ''gut_renovation'' = Inr (Some r)
        \<and> Some (total_cost r) = sample_total_cost demo_template ''large'' ''gut_renovation''
        \<and> total_cost r = 24 * (3 / 2 * 2) * 50 + 4150 * (3 / 2 * 2))"
proof -
  from demo_generate total_cost_formula [where t = demo_template and d = scenario_2]
  obtain e where 1: "generate_estimate demo_template scenario_2 = Inr e"
    "Some (total_cost (totals e))
       = specified_total_cost demo_template (kitchen_size (parse_natural_language scenario_2))
           (scope (parse_natural_language scenario_2))
           (quality_tier (parse_natural_language scenario_2))"
    by blast
  from 1(1) demo_generate have 2: "total_cost (totals e) = 24 * (3 / 2) * 2 * 50 + 4150 * 2"
    by auto
  from demo_sample total_cost_formula
    [where t = demo_template and sz = "''large''" and sc = "''gut_renovation''"]
  obtain r where 3:
    "calculate_sample_estimate demo_template ''large'' ''gut_renovation'' = Inr (Some r)"
    "Some (total_cost r) = sample_total_cost demo_template ''large'' ''gut_renovation''"
    by blast
  from 3(1) demo_sample have 4: "total_cost r = 24 * (3 / 2 * 2) * 50 + 4150 * (3 / 2 * 2)"
    by auto
  from 1 2 3 4 show ?thesis by (simp add: scenario_2_params)
qed

text \<open>
  Claim C2 as stated fails for \<open>calculate_sample_estimate\<close>: on the sample template,
  for the size \<open>large\<close> and the scope \<open>gut_renovation\<close>, it returns the total cost
  16050, and the specified total cost is another number for each of the four quality
  tiers.
\<close>

theorem sample_total_differs:
  "calculate_sample_estimate demo_template ''large'' ''gut_renovation''
     = Inr (Some \<lparr>labor_hours = 72, labor_cost = 3600, material_cost = 12450,
                  total_cost = 16050\<rparr>)
   \<and> specified_total_cost demo_template ''large'' ''gut_renovation'' ''budget''
       = Some (13425 / 2)
   \<and> specified_total_cost demo_template ''large'' ''gut_renovation'' ''mid_range''
       = Some 7750
   \<and> specified_total_cost demo_template ''large'' ''gut_renovation'' ''high_end''
       = Some 9825
   \<and> specified_total_cost demo_template ''large'' ''gut_renovation'' ''luxury''
       = Some 11900"
  by (simp add: demo_sample specified_total_cost_def adjusted_labor_cost_def
        quality_adjusted_material_cost_def demo_included demo_factors demo_raw)

text \<open>
  Claim C8. The phases both estimators include are every phase of the template, in
  template order, when \<open>phases_included\<close> of the scope factor is \<open>"all"\<close> or absent,
  and otherwise the phases whose \<open>phase_id\<close> is in the list, in template order (with a
  \<open>KeyError\<close> when the template has no \<open>phases\<close>, or when a subset is asked for and
  a phase has no \<open>phase_id\<close>). The line items of \<open>generate_estimate\<close> are those of
  the included phases, phase by phase, and the hours and material cost of
  \<open>calculate_sample_estimate\<close> are summed over the included phases.
\<close>

theorem phase_selection:
  "included_phases t scf =
     (case phases t of
        None \<Rightarrow> Inl (KeyError ''phases'')
      | Some ps \<Rightarrow>
          (case get_or (phases_included scf) All of
             All \<Rightarrow> Inr ps
           | Only ids \<Rightarrow>
               if list_all has_phase_id ps then Inr (filter (id_among ids) ps)
               else Inl (KeyError ''phase_id'')))
   \<and> (generate_estimate t d = Inr e \<longrightarrow>
        (\<exists>f incl xs. scope_factor_of t (scope (parse_natural_language d)) = Some f
           \<and> included_phases t f = Inr incl
           \<and> for_each (process_phase t) incl = Inr xs
           \<and> line_items e = concat xs))
   \<and> (calculate_sample_estimate t sz sc = Inr (Some r) \<longrightarrow>
        (\<exists>f incl. scope_factor_of t sc = Some f
           \<and> included_phases t f = Inr incl
           \<and> labor_hours r = raw_labor_hours incl * sample_complexity t sz sc
           \<and> material_cost r = raw_material_cost incl * sample_complexity t sz sc))"
proof (intro conjI impI)
  show "included_phases t scf =
     (case phases t of
        None \<Rightarrow> Inl (KeyError ''phases'')
      | Some ps \<Rightarrow>
          (case get_or (phases_included scf) All of
             All \<Rightarrow> Inr ps
           | Only ids \<Rightarrow>
               if list_all has_phase_id ps then Inr (filter (id_among ids) ps)
               else Inl (KeyError ''phase_id'')))"
    by (rule included_phases_eq)
next
  assume "generate_estimate t d = Inr e"
  from estimate_for_result [OF this [unfolded generate_estimate_def]]
  show "\<exists>f incl xs. scope_factor_of t (scope (parse_natural_language d)) = Some f
           \<and> included_phases t f = Inr incl
           \<and> for_each (process_phase t) incl = Inr xs
           \<and> line_items e = concat xs"
    by blast
next
  assume "calculate_sample_estimate t sz sc = Inr (Some r)"
  from sample_result [OF this]
  show "\<exists>f incl. scope_factor_of t sc = Some f
           \<and> included_phases t f = Inr incl
           \<and> labor_hours r = raw_labor_hours incl * sample_complexity t sz sc
           \<and> material_cost r = raw_material_cost incl * sample_complexity t sz sc"
    by auto
qed

lemma demo_cosmetic_factor:
  "scope_factor_of demo_template ''cosmetic''
     = Some \<lparr>complexity_multiplier = Some (1 / 2),
             phases_included = Some (Only [''cabinets'']), other_keys = []\<rparr>"
  by (simp add: scope_factor_of_def demo_fields demo_lookups)

theorem phase_selection_witness:
  "(\<exists>e f xs. generate_estimate demo_template scenario_2 = Inr e
        \<and> scope_factor_of demo_template ''gut_renovation'' = Some f
        \<and> phases_included f = None
        \<and> included_phases demo_template f = Inr demo_phases
        \<and> for_each (process_phase demo_template) demo_phases = Inr xs
        \<and> line_items e = concat xs)
   \<and> (\<exists>r f. calculate_sample_estimate demo_template ''small'' ''cosmetic'' = Inr (Some r)
        \<and> scope_factor_of demo_template ''cosmetic'' = Some f
        \<and> phases_included f = Some (Only [''cabinets''])
        \<and> included_phases demo_template f = Inr [demo_cabinets]
        \<and> labor_hours r
            = raw_labor_hours [demo_cabinets] * sample_complexity demo_template ''small'' ''cosmetic'')"
proof -
  from demo_generate phase_selection [where t = demo_template and d = scenario_2]
  obtain e f incl xs where 1: "generate_estimate demo_template scenario_2 = Inr e"
    "scope_factor_of demo_template (scope (parse_natural_language scenario_2)) = Some f"
    "included_phases demo_template f = Inr incl"
    "for_each (process_phase demo_template) incl = Inr xs"
    "line_items e = concat xs"
    by blast
  from 1(2) have f: "f = \<lparr>complexity_multiplier = Some 2, phases_included = None,
                          other_keys = []\<rparr>"
    by (simp add: scenario_2_params demo_factors)
  from 1(3) have incl: "incl = demo_phases"
    by (simp add: f demo_all_phases)
  from demo_sample_cosmetic phase_selection
    [where t = demo_template and sz = "''small''" and sc = "''cosmetic''"]
  obtain r g incl' where 2:
    "calculate_sample_estimate demo_template ''small'' ''cosmetic'' = Inr (Some r)"
    "scope_factor_of demo_template ''cosmetic'' = Some g"
    "included_phases demo_template g = Inr incl'"
    "labor_hours r = raw_labor_hours incl' * sample_complexity demo_template ''small'' ''cosmetic''"
    by blast
  from 2(2) have g: "g = \<lparr>complexity_multiplier = Some (1 / 2),
             phases_included = Some (Only [''cabinets'']), other_keys = []\<rparr>"
    by (simp add: demo_cosmetic_factor)
  from 2(3) have incl': "incl' = [demo_cabinets]"
    by (simp add: g demo_cabinets_only)
  have a: "\<exists>e f xs. generate_estimate demo_template scenario_2 = Inr e
        \<and> scope_factor_of demo_template ''gut_renovation'' = Some f
        \<and> phases_included f = None
        \<and> included_phases demo_template f = Inr demo_phases
        \<and> for_each (process_phase demo_template) demo_phases = Inr xs
        \<and> line_items e = concat xs"
    using 1 f incl by (auto simp: scenario_2_params)
  have b: "\<exists>r f. calculate_sample_estimate demo_template ''small'' ''cosmetic'' = Inr (Some r)
        \<and> scope_factor_of demo_template ''cosmetic'' = Some f
        \<and> phases_included f = Some (Only [''cabinets''])
        \<and> included_phases demo_template f = Inr [demo_cabinets]
        \<and> labor_hours r
            = raw_labor_hours [demo_cabinets] * sample_complexity demo_template ''small'' ''cosmetic''"
    using 2 g incl' by auto
  from a b show ?thesis by blast
qed

end
